theory Spec2Isabelle
  imports Complex_Main
begin

section \<open>Python values used by \<open>scrapy.py\<close>\<close>

text \<open>
  A Python \<open>str\<close> is a sequence of Unicode code points; it is modelled as a list of
  code point numbers, so that the rupee sign of the price texts is one character, as it is
  for \<open>str.replace\<close>. The function \<open>str\<close> embeds an ASCII literal of the source.
  A Python \<open>int\<close> is an \<open>int\<close>.
\<close>

type_synonym pystr = "nat list"

definition str :: "string \<Rightarrow> pystr" where
  "str s = map of_char s"

text \<open>\<open>str.isspace\<close> for one character: the Unicode white space characters.\<close>

definition isspace :: "nat \<Rightarrow> bool" where
  "isspace c \<longleftrightarrow>
     (9 \<le> c \<and> c \<le> 13) \<or> (28 \<le> c \<and> c \<le> 32) \<or> c = 133 \<or> c = 160 \<or> c = 5760 \<or>
     (8192 \<le> c \<and> c \<le> 8202) \<or> c = 8232 \<or> c = 8233 \<or> c = 8239 \<or> c = 8287 \<or> c = 12288"

text \<open>\<open>s.strip()\<close>: the white space at both ends is removed.\<close>

definition strip :: "pystr \<Rightarrow> pystr" where
  "strip s = rev (dropWhile isspace (rev (dropWhile isspace s)))"

text \<open>\<open>s.split()\<close>: the maximal runs of characters that are not white space.\<close>

fun split_acc :: "pystr \<Rightarrow> pystr \<Rightarrow> pystr list" where
  "split_acc cur [] = (if cur = [] then [] else [rev cur])"
| "split_acc cur (c # cs) =
     (if isspace c then (if cur = [] then split_acc [] cs else rev cur # split_acc [] cs)
      else split_acc (c # cur) cs)"

definition split :: "pystr \<Rightarrow> pystr list" where
  "split s = split_acc [] s"

text \<open>\<open>s.replace(c, '')\<close> for a one-character \<open>c\<close>: every occurrence is removed.\<close>

definition remove_char :: "nat \<Rightarrow> pystr \<Rightarrow> pystr" where
  "remove_char c s = filter (\<lambda>x. x \<noteq> c) s"

definition rupee :: nat where
  "rupee = 8377"

definition comma :: nat where
  "comma = 44"

subsection \<open>Floats\<close>

text \<open>
  A Python \<open>float\<close> is a double of IEEE 754: a finite number, one of the two
  infinities, or NaN. A finite double is a rational number, and zero comes with either
  sign: \<open>Finite q\<close> is the double of value \<open>q\<close>, with \<open>Finite 0\<close> for \<open>0.0\<close>, and
  \<open>NegZero\<close> is \<open>-0.0\<close>. Not every rational is a double; what is proved of all values
  of this type holds of the doubles among them.
\<close>

datatype pyfloat = Finite rat | NegZero | PosInf | NegInf | NaN

text \<open>
  The place of a float other than NaN in the order of the numbers: the infinities
  lie below and above all finite numbers, and the two zeros are the same number.
\<close>

fun float_rank :: "pyfloat \<Rightarrow> int" where
  "float_rank NegInf = - 1"
| "float_rank PosInf = 1"
| "float_rank x = 0"

fun float_number :: "pyfloat \<Rightarrow> rat" where
  "float_number (Finite q) = q"
| "float_number x = 0"

text \<open>
  \<open>x < y\<close> and \<open>x <= y\<close> for two floats; \<open>x > y\<close> is \<open>y < x\<close>. Every comparison
  with NaN is false. An \<open>int\<close> compared with a float is compared by its value:
  \<open>x > 0\<close> is \<open>float_lt (Finite 0) x\<close>.
\<close>

definition float_lt :: "pyfloat \<Rightarrow> pyfloat \<Rightarrow> bool" where
  "float_lt x y \<longleftrightarrow>
     x \<noteq> NaN \<and> y \<noteq> NaN \<and>
     (float_rank x < float_rank y \<or>
      (float_rank x = float_rank y \<and> float_number x < float_number y))"

definition float_le :: "pyfloat \<Rightarrow> pyfloat \<Rightarrow> bool" where
  "float_le x y \<longleftrightarrow>
     x \<noteq> NaN \<and> y \<noteq> NaN \<and>
     (float_rank x < float_rank y \<or>
      (float_rank x = float_rank y \<and> float_number x \<le> float_number y))"

subsection \<open>Exceptions\<close>

text \<open>
  The exception classes that the code raises or handles. All of them derive from
  \<open>Exception\<close>. \<open>WebDriverException\<close> stands for every failure of the browser driver
  other than the time-out of a wait.
\<close>

datatype exn = ValueError | IndexError | ZeroDivisionError | TimeoutException | WebDriverException

subsection \<open>The builtins that compute with numbers\<close>

text \<open>
  \<open>float(s)\<close> and \<open>int(s)\<close> for a string \<open>s\<close> return a number or raise
  \<open>ValueError\<close>, and nothing else. The sum of floats, the quotient of a float by an
  \<open>int\<close> other than 0 and \<open>round(x, n)\<close> of a float are floats. Which texts are
  numbers (signs, exponents, underscores, \<open>inf\<close> and \<open>nan\<close>, the decimal digits of
  every script, the limit on the digits of an \<open>int\<close>) and how the results are
  rounded to doubles is the interpreter's business and is not derived here: the
  builtins are parameters of the model, and a property proved for every \<open>py\<close> holds
  whatever the interpreter returns.

  \<open>float_of_str\<close> and \<open>int_of_str\<close> give \<open>None\<close> where the builtin raises
  \<open>ValueError\<close>; \<open>float_sum\<close> is \<open>sum\<close> over floats, \<open>float_truediv x n\<close> is
  \<open>x / n\<close> for an \<open>int\<close> \<open>n\<close> other than 0; \<open>float_round x n\<close> is \<open>round(x, n)\<close>.
\<close>

record builtins =
  float_of_str :: "pystr \<Rightarrow> pyfloat option"
  int_of_str :: "pystr \<Rightarrow> int option"
  float_sum :: "pyfloat list \<Rightarrow> pyfloat"
  float_truediv :: "pyfloat \<Rightarrow> nat \<Rightarrow> pyfloat"
  float_round :: "pyfloat \<Rightarrow> nat \<Rightarrow> pyfloat"

text \<open>\<open>float(s)\<close> and \<open>int(s)\<close> as calls that return or raise.\<close>

definition py_float :: "builtins \<Rightarrow> pystr \<Rightarrow> exn + pyfloat" where
  "py_float py s = (case float_of_str py s of None \<Rightarrow> Inl ValueError | Some v \<Rightarrow> Inr v)"

definition py_int :: "builtins \<Rightarrow> pystr \<Rightarrow> exn + int" where
  "py_int py s = (case int_of_str py s of None \<Rightarrow> Inl ValueError | Some n \<Rightarrow> Inr n)"

text \<open>\<open>xs[0]\<close>: the first item, or \<open>IndexError\<close> on the empty list.\<close>

definition first_item :: "'a list \<Rightarrow> exn + 'a" where
  "first_item xs = (case xs of [] \<Rightarrow> Inl IndexError | x # _ \<Rightarrow> Inr x)"

section \<open>The record \<open>ProductDetails\<close>\<close>

text \<open>
  The reading of the clock that \<open>datetime.now()\<close> returns, and its text in the format
  \<open>%Y-%m-%d %H:%M:%S\<close>.
\<close>

record datetime =
  year :: nat
  month :: nat
  day :: nat
  hour :: nat
  minute :: nat
  second :: nat

definition digit_char :: "nat \<Rightarrow> nat" where
  "digit_char d = 48 + d mod 10"

definition pad2 :: "nat \<Rightarrow> pystr" where
  "pad2 n = [digit_char (n div 10), digit_char n]"

definition pad4 :: "nat \<Rightarrow> pystr" where
  "pad4 n = [digit_char (n div 1000), digit_char (n div 100), digit_char (n div 10), digit_char n]"

definition strftime :: "datetime \<Rightarrow> pystr" where
  "strftime t = pad4 (year t) @ [45] @ pad2 (month t) @ [45] @ pad2 (day t) @ [32] @
                pad2 (hour t) @ [58] @ pad2 (minute t) @ [58] @ pad2 (second t)"

record ProductDetails =
  price :: pyfloat
  stock_status :: pystr
  rating :: pyfloat
  review_count :: int
  seller :: pystr
  platform :: pystr
  url :: pystr
  timestamp :: pystr

text \<open>
  The class statement of \<open>ProductDetails\<close> evaluates the default values of the fields
  once, when the module is loaded. The default of \<open>timestamp\<close> is the expression
  \<open>datetime.now().strftime(...)\<close>, so the class keeps the text of the clock reading
  \<open>loaded\<close> of that moment.
\<close>

record ProductDetails_class =
  timestamp_default :: pystr

definition define_ProductDetails :: "datetime \<Rightarrow> ProductDetails_class" where
  "define_ProductDetails loaded = \<lparr>timestamp_default = strftime loaded\<rparr>"

text \<open>
  The call \<open>ProductDetails(platform=p, url=u)\<close>, made while the clock reads \<open>now\<close>:
  every other field takes the default that the class holds, and the clock is not read.
\<close>

definition new_ProductDetails ::
  "ProductDetails_class \<Rightarrow> datetime \<Rightarrow> pystr \<Rightarrow> pystr \<Rightarrow> ProductDetails" where
  "new_ProductDetails cls now p u =
     \<lparr>price = Finite 0, stock_status = str ''Unknown'', rating = Finite 0, review_count = 0,
      seller = str ''Unknown'', platform = p, url = u, timestamp = timestamp_default cls\<rparr>"

section \<open>The browser session\<close>

text \<open>
  A web element; reading its \<open>text\<close> attribute gives a string or raises. A loaded page
  is what the driver answers: the outcome of \<open>driver.get\<close>, and for each CSS selector
  the outcome of waiting for an element, which is the element, \<open>TimeoutException\<close>
  after the ten seconds, or another exception of the driver.
\<close>

datatype element = Element (element_text: "exn + pystr")

record page =
  get_result :: "exn + unit"
  wait_until :: "string \<Rightarrow> exn + element"

text \<open>\<open>_wait_and_get_element\<close>: only the time-out is handled, and gives \<open>None\<close>.\<close>

definition wait_and_get_element :: "page \<Rightarrow> string \<Rightarrow> exn + element option" where
  "wait_and_get_element pg selector =
     (case wait_until pg selector of
        Inr el \<Rightarrow> Inr (Some el)
      | Inl TimeoutException \<Rightarrow> Inr None
      | Inl e \<Rightarrow> Inl e)"

text \<open>\<open>_safe_get_text\<close>: the stripped text, or the empty string without an element
  or when reading the text raises.\<close>

definition safe_get_text :: "element option \<Rightarrow> pystr" where
  "safe_get_text el =
     (case el of
        None \<Rightarrow> []
      | Some e \<Rightarrow> (case element_text e of Inr t \<Rightarrow> strip t | Inl _ \<Rightarrow> []))"

section \<open>The two scrapers\<close>

text \<open>
  The statements of the \<open>try\<close> block of \<open>scrape_product\<close> update the record
  \<open>details\<close> in place, one after the other. A statement is modelled as a step from the
  record to the exception it raises, if any, and the record as the statement leaves it;
  the block stops at the first exception.
\<close>

type_synonym step = "ProductDetails \<Rightarrow> exn option \<times> ProductDetails"

fun run_steps :: "step list \<Rightarrow> step" where
  "run_steps [] d = (None, d)"
| "run_steps (f # fs) d =
     (case f d of (Some e, d') \<Rightarrow> (Some e, d') | (None, d') \<Rightarrow> run_steps fs d')"

text \<open>\<open>self.driver.get(url)\<close>.\<close>

definition navigate :: "page \<Rightarrow> step" where
  "navigate pg d = (case get_result pg of Inl e \<Rightarrow> (Some e, d) | Inr _ \<Rightarrow> (None, d))"

text \<open>\<open>float(price_text.replace(r, '').replace(',', ''))\<close>, with \<open>r\<close> the rupee sign.\<close>

definition price_of_text :: "builtins \<Rightarrow> pystr \<Rightarrow> exn + pyfloat" where
  "price_of_text py price_text = py_float py (remove_char comma (remove_char rupee price_text))"

text \<open>
  The loop over \<open>price_selectors\<close>, the same in both scrapers: a selector without
  element is passed over; the text of an element found is parsed after the rupee sign
  and the commas are removed; the first value parsed is stored and ends the loop
  (\<open>break\<close>), a \<open>ValueError\<close> goes on to the next selector (\<open>continue\<close>).
\<close>

fun price_loop :: "builtins \<Rightarrow> page \<Rightarrow> string list \<Rightarrow> step" where
  "price_loop py pg [] d = (None, d)"
| "price_loop py pg (selector # rest) d =
     (case wait_and_get_element pg selector of
        Inl e \<Rightarrow> (Some e, d)
      | Inr None \<Rightarrow> price_loop py pg rest d
      | Inr (Some price_elem) \<Rightarrow>
          (let price_text = safe_get_text (Some price_elem) in
           case price_of_text py price_text of
             Inr v \<Rightarrow> (None, d\<lparr>price := v\<rparr>)
           | Inl ValueError \<Rightarrow> price_loop py pg rest d
           | Inl e \<Rightarrow> (Some e, d)))"

definition amazon_price_selectors :: "string list" where
  "amazon_price_selectors =
     [''span.a-price-whole'', ''span.a-price[data-a-size=xl] '',
      ''div.a-align-center, .aok-align-center'']"

definition flipkart_price_selectors :: "string list" where
  "flipkart_price_selectors = [''div.C7fEHH '', ''div.UOCQB1'', ''div.hl05eU .Nx9bqj'']"

text \<open>Amazon: the stock status is the text of the element \<open>#availability\<close>.\<close>

definition amazon_stock_status :: "page \<Rightarrow> step" where
  "amazon_stock_status pg d =
     (case wait_and_get_element pg ''#availability'' of
        Inl e \<Rightarrow> (Some e, d)
      | Inr None \<Rightarrow> (None, d)
      | Inr (Some stock_elem) \<Rightarrow> (None, d\<lparr>stock_status := safe_get_text (Some stock_elem)\<rparr>))"

text \<open>Flipkart: the stock status says whether the element \<open>._16FRp0\<close> was found.\<close>

definition flipkart_stock_status :: "page \<Rightarrow> step" where
  "flipkart_stock_status pg d =
     (case wait_and_get_element pg ''._16FRp0'' of
        Inl e \<Rightarrow> (Some e, d)
      | Inr stock_elem \<Rightarrow>
          (None, d\<lparr>stock_status := (if stock_elem \<noteq> None then str ''Out of Stock''
                                     else str ''In Stock'')\<rparr>))"

text \<open>Amazon: \<open>float(rating_text.split()[0])\<close>.\<close>

definition amazon_rating_of_text :: "builtins \<Rightarrow> pystr \<Rightarrow> exn + pyfloat" where
  "amazon_rating_of_text py rating_text =
     (case first_item (split rating_text) of
        Inl e \<Rightarrow> Inl e
      | Inr token \<Rightarrow> py_float py token)"

text \<open>The rating of Amazon, handling \<open>ValueError\<close> and \<open>IndexError\<close>.\<close>

definition amazon_rating :: "builtins \<Rightarrow> page \<Rightarrow> step" where
  "amazon_rating py pg d =
     (case wait_and_get_element pg ''span.a-icon-alt'' of
        Inl e \<Rightarrow> (Some e, d)
      | Inr None \<Rightarrow> (None, d)
      | Inr (Some rating_elem) \<Rightarrow>
          (let rating_text = safe_get_text (Some rating_elem) in
           case amazon_rating_of_text py rating_text of
             Inr v \<Rightarrow> (None, d\<lparr>rating := v\<rparr>)
           | Inl ValueError \<Rightarrow> (None, d)
           | Inl IndexError \<Rightarrow> (None, d)
           | Inl e \<Rightarrow> (Some e, d)))"

text \<open>Flipkart: \<open>float(rating_text)\<close>, handling \<open>ValueError\<close>.\<close>

definition flipkart_rating :: "builtins \<Rightarrow> page \<Rightarrow> step" where
  "flipkart_rating py pg d =
     (case wait_and_get_element pg ''div.XQDdHH'' of
        Inl e \<Rightarrow> (Some e, d)
      | Inr None \<Rightarrow> (None, d)
      | Inr (Some rating_elem) \<Rightarrow>
          (let rating_text = safe_get_text (Some rating_elem) in
           case py_float py rating_text of
             Inr v \<Rightarrow> (None, d\<lparr>rating := v\<rparr>)
           | Inl ValueError \<Rightarrow> (None, d)
           | Inl e \<Rightarrow> (Some e, d)))"

text \<open>Both: \<open>int(review_text.split()[0].replace(',', ''))\<close>.\<close>

definition review_count_of_text :: "builtins \<Rightarrow> pystr \<Rightarrow> exn + int" where
  "review_count_of_text py review_text =
     (case first_item (split review_text) of
        Inl e \<Rightarrow> Inl e
      | Inr token \<Rightarrow> py_int py (remove_char comma token))"

text \<open>The review count, handling \<open>ValueError\<close> and \<open>IndexError\<close>; the selector
  differs between the scrapers.\<close>

definition review_count_step :: "builtins \<Rightarrow> string \<Rightarrow> page \<Rightarrow> step" where
  "review_count_step py selector pg d =
     (case wait_and_get_element pg selector of
        Inl e \<Rightarrow> (Some e, d)
      | Inr None \<Rightarrow> (None, d)
      | Inr (Some review_elem) \<Rightarrow>
          (let review_text = safe_get_text (Some review_elem) in
           case review_count_of_text py review_text of
             Inr n \<Rightarrow> (None, d\<lparr>review_count := n\<rparr>)
           | Inl ValueError \<Rightarrow> (None, d)
           | Inl IndexError \<Rightarrow> (None, d)
           | Inl e \<Rightarrow> (Some e, d)))"

text \<open>The statements of the two \<open>try\<close> blocks, in their order.\<close>

definition amazon_statements :: "builtins \<Rightarrow> page \<Rightarrow> step list" where
  "amazon_statements py pg =
     [navigate pg, price_loop py pg amazon_price_selectors, amazon_stock_status pg,
      amazon_rating py pg, review_count_step py ''#acrCustomerReviewText'' pg]"

definition flipkart_statements :: "builtins \<Rightarrow> page \<Rightarrow> step list" where
  "flipkart_statements py pg =
     [navigate pg, price_loop py pg flipkart_price_selectors, flipkart_stock_status pg,
      flipkart_rating py pg, review_count_step py ''span.Y1HWO0'' pg]"

definition amazon_try_block :: "builtins \<Rightarrow> page \<Rightarrow> step" where
  "amazon_try_block py pg = run_steps (amazon_statements py pg)"

definition flipkart_try_block :: "builtins \<Rightarrow> page \<Rightarrow> step" where
  "flipkart_try_block py pg = run_steps (flipkart_statements py pg)"

text \<open>
  A driver shows a page for each URL. \<open>scrape_product\<close> builds the record while the
  clock reads \<open>now\<close>, runs the \<open>try\<close> block and returns the record, from the block's
  last statement or from the handler \<open>except Exception\<close>, which takes every exception of
  the block. The result is \<open>Inl\<close> for an exception that leaves the method.
\<close>

type_synonym driver = "pystr \<Rightarrow> page"

definition amazon_scrape_product ::
  "builtins \<Rightarrow> ProductDetails_class \<Rightarrow> datetime \<Rightarrow> driver \<Rightarrow> pystr \<Rightarrow>
   exn + ProductDetails" where
  "amazon_scrape_product py cls now drv u =
     (let details = new_ProductDetails cls now (str ''Amazon'') u in
      case amazon_try_block py (drv u) details of
        (None, d) \<Rightarrow> Inr d
      | (Some e, d) \<Rightarrow> Inr d)"

definition flipkart_scrape_product ::
  "builtins \<Rightarrow> ProductDetails_class \<Rightarrow> datetime \<Rightarrow> driver \<Rightarrow> pystr \<Rightarrow>
   exn + ProductDetails" where
  "flipkart_scrape_product py cls now drv u =
     (let details = new_ProductDetails cls now (str ''Flipkart'') u in
      case flipkart_try_block py (drv u) details of
        (None, d) \<Rightarrow> Inr d
      | (Some e, d) \<Rightarrow> Inr d)"

section \<open>The analyzer\<close>

subsection \<open>Dictionaries and the values they hold\<close>

text \<open>
  The values of the report. A \<open>dict\<close> keeps its keys in insertion order: it is a list
  of pairs with distinct keys, read with \<open>map_of\<close>.
\<close>

datatype pyval =
    PyNone
  | PyStr pystr
  | PyInt int
  | PyFloat pyfloat
  | PyList "pyval list"
  | PyDict "(string \<times> pyval) list"

type_synonym pydict = "(string \<times> pyval) list"

text \<open>\<open>d[k] = v\<close>: the value of an old key is replaced in place, a new key comes last.\<close>

fun dict_set :: "string \<Rightarrow> pyval \<Rightarrow> pydict \<Rightarrow> pydict" where
  "dict_set k v [] = [(k, v)]"
| "dict_set k v ((k', v') # rest) =
     (if k' = k then (k, v) # rest else (k', v') # dict_set k v rest)"

text \<open>\<open>d.update(other)\<close>.\<close>

definition dict_update :: "pydict \<Rightarrow> pydict \<Rightarrow> pydict" where
  "dict_update d other = foldl (\<lambda>acc (k, v). dict_set k v acc) d other"

text \<open>\<open>vars(r)\<close> for a record \<open>r\<close>.\<close>

definition vars :: "ProductDetails \<Rightarrow> pyval" where
  "vars r =
     PyDict [(''price'', PyFloat (price r)), (''stock_status'', PyStr (stock_status r)),
             (''rating'', PyFloat (rating r)), (''review_count'', PyInt (review_count r)),
             (''seller'', PyStr (seller r)), (''platform'', PyStr (platform r)),
             (''url'', PyStr (url r)), (''timestamp'', PyStr (timestamp r))]"

subsection \<open>The builtins \<open>min\<close> and \<open>max\<close>, and the division\<close>

text \<open>
  \<open>min(xs, key=f)\<close> keeps the first item and replaces it by a later one only when the
  later key is smaller, by \<open><\<close>; \<open>max\<close> only when the later key is greater, by
  \<open>>\<close>. The keys are floats here. Both raise \<open>ValueError\<close> on an empty sequence.
\<close>

fun min_scan :: "('a \<Rightarrow> pyfloat) \<Rightarrow> 'a \<Rightarrow> 'a list \<Rightarrow> 'a" where
  "min_scan key best [] = best"
| "min_scan key best (x # xs) = min_scan key (if float_lt (key x) (key best) then x else best) xs"

fun max_scan :: "('a \<Rightarrow> pyfloat) \<Rightarrow> 'a \<Rightarrow> 'a list \<Rightarrow> 'a" where
  "max_scan key best [] = best"
| "max_scan key best (x # xs) = max_scan key (if float_lt (key best) (key x) then x else best) xs"

definition py_min :: "('a \<Rightarrow> pyfloat) \<Rightarrow> 'a list \<Rightarrow> exn + 'a" where
  "py_min key xs = (case xs of [] \<Rightarrow> Inl ValueError | x # rest \<Rightarrow> Inr (min_scan key x rest))"

definition py_max :: "('a \<Rightarrow> pyfloat) \<Rightarrow> 'a list \<Rightarrow> exn + 'a" where
  "py_max key xs = (case xs of [] \<Rightarrow> Inl ValueError | x # rest \<Rightarrow> Inr (max_scan key x rest))"

text \<open>\<open>x / n\<close> for a float and the length of a list; the length 0 raises.\<close>

definition py_truediv :: "builtins \<Rightarrow> pyfloat \<Rightarrow> nat \<Rightarrow> exn + pyfloat" where
  "py_truediv py x n = (if n = 0 then Inl ZeroDivisionError else Inr (float_truediv py x n))"

subsection \<open>\<open>ProductAnalyzer\<close>\<close>

text \<open>
  \<open>self.scrapers\<close>: the scraper of Amazon under the key \<open>amazon\<close> and that of Flipkart
  under \<open>flipkart\<close>, each with the driver it owns.
\<close>

record ProductAnalyzer =
  amazon :: driver
  flipkart :: driver

type_synonym scraper = "ProductDetails_class \<Rightarrow> datetime \<Rightarrow> pystr \<Rightarrow> exn + ProductDetails"

definition scrapers :: "builtins \<Rightarrow> ProductAnalyzer \<Rightarrow> pystr \<Rightarrow> scraper option" where
  "scrapers py self platform_key =
     (if platform_key = str ''amazon''
        then Some (\<lambda>cls now u. amazon_scrape_product py cls now (amazon self) u)
      else if platform_key = str ''flipkart''
        then Some (\<lambda>cls now u. flipkart_scrape_product py cls now (flipkart self) u)
      else None)"

text \<open>
  The loop over \<open>urls.items()\<close>: the items of the dictionary in order. \<open>clock n\<close> is
  the reading of the clock during the \<open>n\<close>-th iteration. A record returned is appended
  to \<open>results\<close>; an exception of the scraper is logged and the platform adds nothing.
\<close>

fun collect_results ::
  "builtins \<Rightarrow> ProductDetails_class \<Rightarrow> (nat \<Rightarrow> datetime) \<Rightarrow> ProductAnalyzer \<Rightarrow> nat \<Rightarrow>
   (pystr \<times> pystr) list \<Rightarrow> ProductDetails list \<Rightarrow> ProductDetails list" where
  "collect_results py cls clock self n [] results = results"
| "collect_results py cls clock self n ((platform_key, u) # rest) results =
     (case scrapers py self platform_key of
        None \<Rightarrow> collect_results py cls clock self (Suc n) rest results
      | Some scraper \<Rightarrow>
          (case scraper cls (clock n) u of
             Inr product_details \<Rightarrow>
               collect_results py cls clock self (Suc n) rest (results @ [product_details])
           | Inl e \<Rightarrow> collect_results py cls clock self (Suc n) rest results))"

text \<open>
  The value stored under \<open>average_rating\<close>:
  \<open>round(sum(...) / len(valid_results), 2) if any(...) else 0\<close>.
\<close>

definition average_rating :: "builtins \<Rightarrow> ProductDetails list \<Rightarrow> exn + pyval" where
  "average_rating py valid_results =
     (if list_ex (\<lambda>r. float_lt (Finite 0) (rating r)) valid_results
      then (case py_truediv py (float_sum py (map rating valid_results)) (length valid_results) of
              Inl e \<Rightarrow> Inl e
            | Inr mean \<Rightarrow> Inr (PyFloat (float_round py mean 2)))
      else Inr (PyInt 0))"

text \<open>
  The rest of \<open>analyze_product\<close>, after the drivers are closed: the report for the
  records collected, prepared while the clock reads \<open>now\<close>.
\<close>

definition prepare_analysis ::
  "builtins \<Rightarrow> datetime \<Rightarrow> ProductDetails list \<Rightarrow> exn + pydict" where
  "prepare_analysis py now results =
     (let analysis = [(''timestamp'', PyStr (strftime now)),
                      (''all_results'', PyList (map vars results)),
                      (''error'', PyNone)];
          valid_results = filter (\<lambda>r. float_lt (Finite 0) (price r)) results
      in if valid_results \<noteq> [] then
           (case py_min price valid_results of
              Inl e \<Rightarrow> Inl e
            | Inr best_price \<Rightarrow>
                (case py_max rating valid_results of
                   Inl e \<Rightarrow> Inl e
                 | Inr highest_rated \<Rightarrow>
                     (case average_rating py valid_results of
                        Inl e \<Rightarrow> Inl e
                      | Inr average \<Rightarrow>
                          Inr (dict_update analysis
                            [(''best_price'',
                                PyDict [(''platform'', PyStr (platform best_price)),
                                        (''price'', PyFloat (price best_price)),
                                        (''url'', PyStr (url best_price))]),
                             (''highest_rated'',
                                PyDict [(''platform'', PyStr (platform highest_rated)),
                                        (''rating'', PyFloat (rating highest_rated)),
                                        (''review_count'', PyInt (review_count highest_rated)),
                                        (''url'', PyStr (url highest_rated))]),
                             (''average_rating'', average)]))))
         else Inr (dict_set ''error''
                     (PyStr (str ''No valid prices found across platforms'')) analysis))"

definition analyze_product ::
  "builtins \<Rightarrow> ProductDetails_class \<Rightarrow> (nat \<Rightarrow> datetime) \<Rightarrow> ProductAnalyzer \<Rightarrow>
   (pystr \<times> pystr) list \<Rightarrow> exn + pydict" where
  "analyze_product py cls clock self urls =
     (let results = collect_results py cls clock self 0 urls []
      in prepare_analysis py (clock (length urls)) results)"

section \<open>Notions used to state the properties\<close>

text \<open>
  A statement \<open>f\<close> of the \<open>try\<close> block writes the field \<open>field\<close> within \<open>P\<close> when it
  leaves the field as it was or stores a value that satisfies \<open>P\<close>; it leaves the
  field unchanged when it never stores another value.
\<close>

definition writes :: "(ProductDetails \<Rightarrow> 'a) \<Rightarrow> ('a \<Rightarrow> bool) \<Rightarrow> step \<Rightarrow> bool" where
  "writes field P f \<longleftrightarrow> (\<forall>d. field (snd (f d)) = field d \<or> P (field (snd (f d))))"

definition unchanged :: "(ProductDetails \<Rightarrow> 'a) \<Rightarrow> step \<Rightarrow> bool" where
  "unchanged field f \<longleftrightarrow> writes field (\<lambda>_. False) f"

text \<open>
  What the price loop meets at a selector of the page: the selector yields \<open>v\<close> when
  an element is found and \<open>float\<close> returns \<open>v\<close> for its text, without the rupee sign
  and the commas; it is skipped when the wait times out or \<open>float\<close> raises
  \<open>ValueError\<close> for the text of the element found.
\<close>

definition yields :: "builtins \<Rightarrow> page \<Rightarrow> string \<Rightarrow> pyfloat \<Rightarrow> bool" where
  "yields py pg selector v \<longleftrightarrow>
     (case wait_until pg selector of
        Inl e \<Rightarrow> False
      | Inr el \<Rightarrow> price_of_text py (safe_get_text (Some el)) = Inr v)"

definition skipped :: "builtins \<Rightarrow> page \<Rightarrow> string \<Rightarrow> bool" where
  "skipped py pg selector \<longleftrightarrow>
     (case wait_until pg selector of
        Inl e \<Rightarrow> e = TimeoutException
      | Inr el \<Rightarrow> price_of_text py (safe_get_text (Some el)) = Inl ValueError)"

text \<open>
  The driver loads the page and answers the lookup of each of the selectors with an
  element or with a time-out.
\<close>

definition responsive :: "page \<Rightarrow> string list \<Rightarrow> bool" where
  "responsive pg selectors \<longleftrightarrow>
     get_result pg = Inr () \<and>
     list_all (\<lambda>s. case wait_until pg s of Inl e \<Rightarrow> e = TimeoutException | Inr el \<Rightarrow> True) selectors"



text \<open>The entries that the report holds for a record under \<open>best_price\<close> and
  \<open>highest_rated\<close>, and whether a dictionary has a key.\<close>

definition best_price_entry :: "ProductDetails \<Rightarrow> pyval" where
  "best_price_entry r =
     PyDict [(''platform'', PyStr (platform r)), (''price'', PyFloat (price r)),
             (''url'', PyStr (url r))]"

definition highest_rated_entry :: "ProductDetails \<Rightarrow> pyval" where
  "highest_rated_entry r =
     PyDict [(''platform'', PyStr (platform r)), (''rating'', PyFloat (rating r)),
             (''review_count'', PyInt (review_count r)), (''url'', PyStr (url r))]"

definition has_key :: "pydict \<Rightarrow> string \<Rightarrow> bool" where
  "has_key d k \<longleftrightarrow> map_of d k \<noteq> None"

text \<open>
  The keys of the report as the specification describes them: with a record of
  positive price the three comparative keys are present and \<open>error\<close> is \<open>None\<close>;
  without one, \<open>error\<close> is the message and the three keys are absent.
\<close>

definition report_keys_as_claimed :: "ProductDetails list \<Rightarrow> pydict \<Rightarrow> bool" where
  "report_keys_as_claimed results report \<longleftrightarrow>
     (if list_ex (\<lambda>r. float_lt (Finite 0) (price r)) results
      then map_of report ''error'' = Some PyNone \<and> has_key report ''best_price'' \<and>
           has_key report ''highest_rated'' \<and> has_key report ''average_rating''
      else map_of report ''error'' = Some (PyStr (str ''No valid prices found across platforms'')) \<and>
           \<not> has_key report ''best_price'' \<and> \<not> has_key report ''highest_rated'' \<and>
           \<not> has_key report ''average_rating'')"

section \<open>Sample inputs\<close>

text \<open>
  Doubles that the samples meet, as rationals: the double that \<open>4.3\<close> denotes; the
  double that \<open>0.35000000000000003\<close> denotes, which is the least double above 0.35;
  the double nearest to 5.35, which lies below it; its half; and the double that
  \<open>2.67\<close> denotes.
\<close>

definition double_4_3 :: rat where
  "double_4_3 = 4841369599423283 / 1125899906842624"

definition double_above_0_35 :: rat where
  "double_above_0_35 = 6305039478318695 / 18014398509481984"

definition double_5_35 :: rat where
  "double_5_35 = 3011782250804019 / 562949953421312"

definition double_2_675 :: rat where
  "double_2_675 = 3011782250804019 / 1125899906842624"

definition double_2_67 :: rat where
  "double_2_67 = 1503076375634903 / 562949953421312"

text \<open>
  The builtins on the arguments that the sample pages and records below give them, with
  the results of Python 3: \<open>float\<close> on the four texts of the pages that are numbers,
  and \<open>ValueError\<close> on their two other texts, \<open>Sold out\<close> and
  \<open>4.3 out of 5 stars\<close>; \<open>int\<close> on one text; \<open>sum\<close>, the division and
  \<open>round\<close> on the ratings of four lists of records. So
  \<open>sum([5.0, 0.35000000000000003])\<close> is the double nearest to 5.35, half of it is
  the double that \<open>2.675\<close> denotes, and \<open>round\<close> of that to two digits is the double
  that \<open>2.67\<close> denotes. The samples give the builtins no other argument.
\<close>

definition sample_python :: builtins where
  "sample_python =
     \<lparr>float_of_str = (\<lambda>s.
          if s = str ''1299.50'' then Some (Finite (2599 / 2))
          else if s = str ''1299'' then Some (Finite 1299)
          else if s = str ''7.5'' then Some (Finite (15 / 2))
          else if s = str ''4.3'' then Some (Finite double_4_3)
          else None),
      int_of_str = (\<lambda>s. if s = str ''1234'' then Some 1234 else None),
      float_sum = (\<lambda>xs.
          if xs = [Finite 4, Finite (9 / 2), Finite (9 / 2)] then Finite 13
          else if xs = [Finite 4, Finite 0] then Finite 4
          else if xs = [Finite 5, Finite double_above_0_35] then Finite double_5_35
          else if xs = [NaN, Finite (9 / 2)] then NaN
          else NaN),
      float_truediv = (\<lambda>x n.
          if x = Finite 13 \<and> n = 3 then Finite (4878899596318037 / 1125899906842624)
          else if x = Finite 4 \<and> n = 2 then Finite 2
          else if x = Finite double_5_35 \<and> n = 2 then Finite double_2_675
          else if x = NaN \<and> n = 2 then NaN
          else NaN),
      float_round = (\<lambda>x n.
          if x = Finite (4878899596318037 / 1125899906842624) \<and> n = 2
          then Finite (2437573298314281 / 562949953421312)
          else if x = Finite 2 \<and> n = 2 then Finite 2
          else if x = Finite double_2_675 \<and> n = 2 then Finite double_2_67
          else if x = NaN \<and> n = 2 then NaN
          else NaN)\<rparr>"

text \<open>
  A run in which the module is loaded at nine o'clock and the two scrapers are called
  one and a half hours later, 37 seconds apart.
\<close>

definition module_loaded :: datetime where
  "module_loaded = \<lparr>year = 2024, month = 1, day = 15, hour = 9, minute = 0, second = 0\<rparr>"

definition first_call :: datetime where
  "first_call = \<lparr>year = 2024, month = 1, day = 15, hour = 10, minute = 30, second = 5\<rparr>"

definition second_call :: datetime where
  "second_call = \<lparr>year = 2024, month = 1, day = 15, hour = 10, minute = 30, second = 42\<rparr>"

definition sample_clock :: "nat \<Rightarrow> datetime" where
  "sample_clock n = (if n = 0 then first_call else second_call)"

definition sample_class :: ProductDetails_class where
  "sample_class = define_ProductDetails module_loaded"

definition sample_url :: pystr where
  "sample_url = str ''http://shop/p1''"

definition sample_urls :: "(pystr \<times> pystr) list" where
  "sample_urls = [(str ''amazon'', sample_url), (str ''flipkart'', sample_url)]"

text \<open>A driver that fails to load any page, and one whose pages have no element.\<close>

definition offline_driver :: driver where
  "offline_driver = (\<lambda>u. \<lparr>get_result = Inl WebDriverException,
                                wait_until = (\<lambda>s. Inl WebDriverException)\<rparr>)"

definition blank_driver :: driver where
  "blank_driver = (\<lambda>u. \<lparr>get_result = Inr (), wait_until = (\<lambda>s. Inl TimeoutException)\<rparr>)"

text \<open>
  Pages that load. One has an unparseable text under the first price selector of Amazon
  and a price under the third; one shows the rating \<open>4.3 out of 5 stars\<close> under the
  rating selectors of both sites; one shows the rating 7.5 and 1,234 ratings on
  Flipkart; one has the marker of Flipkart for a product out of stock, with the text
  \<open>In Stock\<close>; one shows a price of Amazon, after which the driver fails.
\<close>

definition fallback_driver :: driver where
  "fallback_driver = (\<lambda>u. \<lparr>get_result = Inr (),
     wait_until = (\<lambda>s. if s = ''span.a-price-whole'' then Inr (Element (Inr (str ''Sold out'')))
                        else if s = ''div.a-align-center, .aok-align-center''
                        then Inr (Element (Inr (rupee # str ''1,299.50 '')))
                        else Inl TimeoutException)\<rparr>)"

definition stars_driver :: driver where
  "stars_driver = (\<lambda>u. \<lparr>get_result = Inr (),
     wait_until = (\<lambda>s. if s = ''span.a-icon-alt'' \<or> s = ''div.XQDdHH''
                        then Inr (Element (Inr (str ''4.3 out of 5 stars'')))
                        else Inl TimeoutException)\<rparr>)"

definition overrated_driver :: driver where
  "overrated_driver = (\<lambda>u. \<lparr>get_result = Inr (),
     wait_until = (\<lambda>s. if s = ''div.XQDdHH'' then Inr (Element (Inr (str ''7.5'')))
                        else if s = ''span.Y1HWO0'' then Inr (Element (Inr (str ''1,234 Ratings'')))
                        else Inl TimeoutException)\<rparr>)"

definition crashing_driver :: driver where
  "crashing_driver = (\<lambda>u. \<lparr>get_result = Inr (),
     wait_until = (\<lambda>s. if s = ''span.a-price-whole'' then Inr (Element (Inr (str ''1,299'')))
                        else Inl WebDriverException)\<rparr>)"

definition unavailable_driver :: driver where
  "unavailable_driver = (\<lambda>u. \<lparr>get_result = Inr (),
     wait_until = (\<lambda>s. if s = ''._16FRp0'' then Inr (Element (Inr (str ''In Stock'')))
                        else Inl TimeoutException)\<rparr>)"







section \<open>Properties of the scrapers\<close>

subsection \<open>The exceptions of the parsers\<close>

lemma py_float_error: "py_float py s = Inl e \<Longrightarrow> e = ValueError"
  by (simp add: py_float_def split: option.splits)

lemma py_int_error: "py_int py s = Inl e \<Longrightarrow> e = ValueError"
  by (simp add: py_int_def split: option.splits)

lemma price_of_text_error: "price_of_text py s = Inl e \<Longrightarrow> e = ValueError"
  by (simp add: price_of_text_def py_float_error)

lemma amazon_rating_of_text_error:
  "amazon_rating_of_text py s = Inl e \<Longrightarrow> e = ValueError \<or> e = IndexError"
  by (auto simp: amazon_rating_of_text_def first_item_def py_float_error
      split: sum.splits list.splits)

lemma review_count_of_text_error:
  "review_count_of_text py s = Inl e \<Longrightarrow> e = ValueError \<or> e = IndexError"
  by (auto simp: review_count_of_text_def first_item_def py_int_error
      split: sum.splits list.splits)

subsection \<open>What a statement of the \<open>try\<close> block changes\<close>

lemma writes_run_steps: "list_all (writes field P) fs \<Longrightarrow> writes field P (run_steps fs)"
proof (induction fs)
  case Nil
  then show ?case by (simp add: writes_def)
next
  case (Cons f fs)
  then have kf: "writes field P f" and kfs: "writes field P (run_steps fs)" by simp_all
  show ?case
    unfolding writes_def
  proof
    fix d
    obtain r d' where fd: "f d = (r, d')" by (cases "f d")
    with kf have d': "field d' = field d \<or> P (field d')"
      unfolding writes_def by (metis snd_conv)
    show "field (snd (run_steps (f # fs) d)) = field d \<or> P (field (snd (run_steps (f # fs) d)))"
    proof (cases r)
      case None
      from kfs have "field (snd (run_steps fs d')) = field d' \<or> P (field (snd (run_steps fs d')))"
        unfolding writes_def by blast
      with None fd d' show ?thesis by auto
    next
      case (Some e)
      with fd d' show ?thesis by simp
    qed
  qed
qed

lemma unchanged_run_steps: "list_all (unchanged field) fs \<Longrightarrow> unchanged field (run_steps fs)"
  using writes_run_steps [of field "\<lambda>_. False" fs]
  by (simp add: unchanged_def [abs_def])

lemma unchanged_eq: "unchanged field f \<Longrightarrow> field (snd (f d)) = field d"
  by (simp add: unchanged_def writes_def)

lemma unchanged_writes: "unchanged field f \<Longrightarrow> writes field P f"
  by (simp add: unchanged_def writes_def)

lemma writes_eq: "writes field P f \<Longrightarrow> field (snd (f d)) = field d \<or> P (field (snd (f d)))"
  by (simp add: writes_def)

lemma unchanged_navigate: "unchanged field (navigate pg)"
  by (simp add: unchanged_def writes_def navigate_def split: sum.splits)

lemma unchanged_from_frame:
  assumes "\<And>d. \<exists>x. snd (f d) = upd x d" and "\<And>x d. field (upd x d) = field d"
  shows "unchanged field f"
  unfolding unchanged_def writes_def using assms by metis

lemma price_loop_cases:
  "price_loop py pg sels d = (r, d') \<Longrightarrow>
     d' = d \<or> (\<exists>s\<in>set sels. \<exists>v. yields py pg s v \<and> d' = d\<lparr>price := v\<rparr>)"
proof (induction sels)
  case Nil
  then show ?case by simp
next
  case (Cons s sels)
  then show ?case
    by (auto simp: Let_def yields_def wait_and_get_element_def
        split: sum.splits option.splits exn.splits)
qed

lemma amazon_stock_status_cases:
  "amazon_stock_status pg d = (r, d') \<Longrightarrow> d' = d \<or> (\<exists>v. d' = d\<lparr>stock_status := v\<rparr>)"
  by (auto simp: amazon_stock_status_def split: sum.splits option.splits)

lemma flipkart_stock_status_cases:
  "flipkart_stock_status pg d = (r, d') \<Longrightarrow> d' = d \<or> (\<exists>v. d' = d\<lparr>stock_status := v\<rparr>)"
  by (auto simp: flipkart_stock_status_def split: sum.splits option.splits)

lemma amazon_rating_cases:
  "amazon_rating py pg d = (r, d') \<Longrightarrow>
     d' = d \<or> (\<exists>el. wait_until pg ''span.a-icon-alt'' = Inr el \<and>
                   amazon_rating_of_text py (safe_get_text (Some el)) = Inr (rating d') \<and>
                   d' = d\<lparr>rating := rating d'\<rparr>)"
  by (auto simp: amazon_rating_def Let_def wait_and_get_element_def
      split: sum.splits option.splits exn.splits)

lemma flipkart_rating_cases:
  "flipkart_rating py pg d = (r, d') \<Longrightarrow>
     d' = d \<or> (\<exists>el. wait_until pg ''div.XQDdHH'' = Inr el \<and>
                   py_float py (safe_get_text (Some el)) = Inr (rating d') \<and>
                   d' = d\<lparr>rating := rating d'\<rparr>)"
  by (auto simp: flipkart_rating_def Let_def wait_and_get_element_def
      split: sum.splits option.splits exn.splits)

lemma review_count_step_cases:
  "review_count_step py sel pg d = (r, d') \<Longrightarrow>
     d' = d \<or> (\<exists>el. wait_until pg sel = Inr el \<and>
                   review_count_of_text py (safe_get_text (Some el)) = Inr (review_count d') \<and>
                   d' = d\<lparr>review_count := review_count d'\<rparr>)"
  by (auto simp: review_count_step_def Let_def wait_and_get_element_def
      split: sum.splits option.splits exn.splits)

lemma price_loop_frame: "\<exists>x. snd (price_loop py pg sels d) = d\<lparr>price := x\<rparr>"
  using price_loop_cases [OF surjective_pairing, of py pg sels d]
  by (auto intro: exI [of _ "price d"])

lemma amazon_stock_status_frame: "\<exists>x. snd (amazon_stock_status pg d) = d\<lparr>stock_status := x\<rparr>"
  using amazon_stock_status_cases [OF surjective_pairing, of pg d]
  by (auto intro: exI [of _ "stock_status d"])

lemma flipkart_stock_status_frame: "\<exists>x. snd (flipkart_stock_status pg d) = d\<lparr>stock_status := x\<rparr>"
  using flipkart_stock_status_cases [OF surjective_pairing, of pg d]
  by (auto intro: exI [of _ "stock_status d"])

lemma amazon_rating_frame: "\<exists>x. snd (amazon_rating py pg d) = d\<lparr>rating := x\<rparr>"
  using amazon_rating_cases [OF surjective_pairing, of py pg d]
  by (auto intro: exI [of _ "rating d"])

lemma flipkart_rating_frame: "\<exists>x. snd (flipkart_rating py pg d) = d\<lparr>rating := x\<rparr>"
  using flipkart_rating_cases [OF surjective_pairing, of py pg d]
  by (auto intro: exI [of _ "rating d"])

lemma review_count_step_frame: "\<exists>x. snd (review_count_step py sel pg d) = d\<lparr>review_count := x\<rparr>"
  using review_count_step_cases [OF surjective_pairing, of py sel pg d]
  by (auto intro: exI [of _ "review_count d"])

lemma price_loop_unchanged:
  "unchanged platform (price_loop py pg sels)" "unchanged url (price_loop py pg sels)"
  "unchanged timestamp (price_loop py pg sels)" "unchanged stock_status (price_loop py pg sels)"
  "unchanged rating (price_loop py pg sels)" "unchanged review_count (price_loop py pg sels)"
  by (rule unchanged_from_frame [where upd = "\<lambda>x d. d\<lparr>price := x\<rparr>"];
      simp add: price_loop_frame)+

lemma amazon_stock_status_unchanged:
  "unchanged platform (amazon_stock_status pg)" "unchanged url (amazon_stock_status pg)"
  "unchanged timestamp (amazon_stock_status pg)" "unchanged price (amazon_stock_status pg)"
  "unchanged rating (amazon_stock_status pg)" "unchanged review_count (amazon_stock_status pg)"
  by (rule unchanged_from_frame [where upd = "\<lambda>x d. d\<lparr>stock_status := x\<rparr>"];
      simp add: amazon_stock_status_frame)+

lemma flipkart_stock_status_unchanged:
  "unchanged platform (flipkart_stock_status pg)" "unchanged url (flipkart_stock_status pg)"
  "unchanged timestamp (flipkart_stock_status pg)" "unchanged price (flipkart_stock_status pg)"
  "unchanged rating (flipkart_stock_status pg)" "unchanged review_count (flipkart_stock_status pg)"
  by (rule unchanged_from_frame [where upd = "\<lambda>x d. d\<lparr>stock_status := x\<rparr>"];
      simp add: flipkart_stock_status_frame)+

lemma amazon_rating_unchanged:
  "unchanged platform (amazon_rating py pg)" "unchanged url (amazon_rating py pg)"
  "unchanged timestamp (amazon_rating py pg)" "unchanged price (amazon_rating py pg)"
  "unchanged stock_status (amazon_rating py pg)" "unchanged review_count (amazon_rating py pg)"
  by (rule unchanged_from_frame [where upd = "\<lambda>x d. d\<lparr>rating := x\<rparr>"];
      simp add: amazon_rating_frame)+

lemma flipkart_rating_unchanged:
  "unchanged platform (flipkart_rating py pg)" "unchanged url (flipkart_rating py pg)"
  "unchanged timestamp (flipkart_rating py pg)" "unchanged price (flipkart_rating py pg)"
  "unchanged stock_status (flipkart_rating py pg)" "unchanged review_count (flipkart_rating py pg)"
  by (rule unchanged_from_frame [where upd = "\<lambda>x d. d\<lparr>rating := x\<rparr>"];
      simp add: flipkart_rating_frame)+

lemma review_count_step_unchanged:
  "unchanged platform (review_count_step py sel pg)" "unchanged url (review_count_step py sel pg)"
  "unchanged timestamp (review_count_step py sel pg)" "unchanged price (review_count_step py sel pg)"
  "unchanged stock_status (review_count_step py sel pg)" "unchanged rating (review_count_step py sel pg)"
  by (rule unchanged_from_frame [where upd = "\<lambda>x d. d\<lparr>review_count := x\<rparr>"];
      simp add: review_count_step_frame)+

lemmas step_unchanged =
  unchanged_navigate price_loop_unchanged amazon_stock_status_unchanged
  flipkart_stock_status_unchanged amazon_rating_unchanged flipkart_rating_unchanged
  review_count_step_unchanged

lemma amazon_try_block_unchanged:
  "unchanged platform (amazon_try_block py pg)" "unchanged url (amazon_try_block py pg)"
  "unchanged timestamp (amazon_try_block py pg)"
  unfolding amazon_try_block_def amazon_statements_def
  by (rule unchanged_run_steps, simp add: step_unchanged)+

lemma flipkart_try_block_unchanged:
  "unchanged platform (flipkart_try_block py pg)" "unchanged url (flipkart_try_block py pg)"
  "unchanged timestamp (flipkart_try_block py pg)"
  unfolding flipkart_try_block_def flipkart_statements_def
  by (rule unchanged_run_steps, simp add: step_unchanged)+

lemma price_loop_writes:
  "writes price (\<lambda>v. \<exists>s\<in>set sels. yields py pg s v) (price_loop py pg sels)"
  unfolding writes_def
proof
  fix d
  let ?d' = "snd (price_loop py pg sels d)"
  have "?d' = d \<or> (\<exists>s\<in>set sels. \<exists>v. yields py pg s v \<and> ?d' = d\<lparr>price := v\<rparr>)"
    by (rule price_loop_cases [OF surjective_pairing])
  then show "price ?d' = price d \<or> (\<exists>s\<in>set sels. yields py pg s (price ?d'))"
  proof (elim disjE bexE exE conjE)
    assume "?d' = d"
    then show ?thesis by simp
  next
    fix s v
    assume s: "s \<in> set sels" and y: "yields py pg s v" and "?d' = d\<lparr>price := v\<rparr>"
    then have "price ?d' = v" by simp
    with s y show ?thesis by blast
  qed
qed

lemma amazon_rating_writes:
  "writes rating (\<lambda>v. \<exists>el. wait_until pg ''span.a-icon-alt'' = Inr el \<and>
                          amazon_rating_of_text py (safe_get_text (Some el)) = Inr v)
     (amazon_rating py pg)"
  unfolding writes_def
  using amazon_rating_cases [OF surjective_pairing, of py pg] by metis

lemma flipkart_rating_writes:
  "writes rating (\<lambda>v. \<exists>el. wait_until pg ''div.XQDdHH'' = Inr el \<and>
                          py_float py (safe_get_text (Some el)) = Inr v)
     (flipkart_rating py pg)"
  unfolding writes_def
  using flipkart_rating_cases [OF surjective_pairing, of py pg] by metis

lemma review_count_step_writes:
  "writes review_count (\<lambda>n. \<exists>el. wait_until pg sel = Inr el \<and>
                          review_count_of_text py (safe_get_text (Some el)) = Inr n)
     (review_count_step py sel pg)"
  unfolding writes_def
  using review_count_step_cases [OF surjective_pairing, of py sel pg] by metis

lemma amazon_try_block_writes:
  "writes price (\<lambda>v. \<exists>s\<in>set amazon_price_selectors. yields py pg s v) (amazon_try_block py pg)"
  "writes rating (\<lambda>v. \<exists>el. wait_until pg ''span.a-icon-alt'' = Inr el \<and>
                          amazon_rating_of_text py (safe_get_text (Some el)) = Inr v)
     (amazon_try_block py pg)"
  "writes review_count (\<lambda>n. \<exists>el. wait_until pg ''#acrCustomerReviewText'' = Inr el \<and>
                          review_count_of_text py (safe_get_text (Some el)) = Inr n)
     (amazon_try_block py pg)"
  unfolding amazon_try_block_def amazon_statements_def
  by (rule writes_run_steps,
      simp add: step_unchanged unchanged_writes price_loop_writes amazon_rating_writes
        review_count_step_writes)+

lemma flipkart_try_block_writes:
  "writes price (\<lambda>v. \<exists>s\<in>set flipkart_price_selectors. yields py pg s v) (flipkart_try_block py pg)"
  "writes rating (\<lambda>v. \<exists>el. wait_until pg ''div.XQDdHH'' = Inr el \<and>
                          py_float py (safe_get_text (Some el)) = Inr v)
     (flipkart_try_block py pg)"
  "writes review_count (\<lambda>n. \<exists>el. wait_until pg ''span.Y1HWO0'' = Inr el \<and>
                          review_count_of_text py (safe_get_text (Some el)) = Inr n)
     (flipkart_try_block py pg)"
  unfolding flipkart_try_block_def flipkart_statements_def
  by (rule writes_run_steps,
      simp add: step_unchanged unchanged_writes price_loop_writes flipkart_rating_writes
        review_count_step_writes)+

lemma run_steps_price_kept:
  assumes "list_all (unchanged price) fs"
  shows "price (snd (run_steps fs d)) = price d"
  using unchanged_run_steps [OF assms] by (rule unchanged_eq)

lemma run_steps_stock_status_kept:
  assumes "list_all (unchanged stock_status) fs"
  shows "stock_status (snd (run_steps fs d)) = stock_status d"
  using unchanged_run_steps [OF assms] by (rule unchanged_eq)

lemma run_steps_rating_kept:
  assumes "list_all (unchanged rating) fs"
  shows "rating (snd (run_steps fs d)) = rating d"
  using unchanged_run_steps [OF assms] by (rule unchanged_eq)

subsection \<open>The course of the \<open>try\<close> block\<close>

lemma amazon_scrape_product_eq:
  "amazon_scrape_product py cls now drv u =
     Inr (snd (amazon_try_block py (drv u) (new_ProductDetails cls now (str ''Amazon'') u)))"
  by (simp add: amazon_scrape_product_def Let_def split: prod.splits option.splits)

lemma flipkart_scrape_product_eq:
  "flipkart_scrape_product py cls now drv u =
     Inr (snd (flipkart_try_block py (drv u) (new_ProductDetails cls now (str ''Flipkart'') u)))"
  by (simp add: flipkart_scrape_product_def Let_def split: prod.splits option.splits)

lemma navigate_failure: "get_result pg = Inl e \<Longrightarrow> run_steps (navigate pg # fs) d = (Some e, d)"
  by (simp add: navigate_def)

lemma navigate_success: "get_result pg = Inr x \<Longrightarrow> run_steps (navigate pg # fs) d = run_steps fs d"
  by (simp add: navigate_def)

lemma run_steps_failure:
  "run_steps fs d = (None, d1) \<Longrightarrow> f d1 = (Some e, d2) \<Longrightarrow>
     run_steps (fs @ f # gs) d = (Some e, d2)"
proof (induction fs arbitrary: d)
  case Nil
  then show ?case by simp
next
  case (Cons g fs)
  then show ?case by (cases "g d") (auto split: option.splits)
qed

lemma amazon_scrape_fields:
  "amazon_scrape_product py cls now drv u = Inr d \<Longrightarrow>
     platform d = str ''Amazon'' \<and> url d = u \<and> timestamp d = timestamp_default cls"
  using amazon_try_block_unchanged [of py "drv u", THEN unchanged_eq]
  by (auto simp: amazon_scrape_product_eq new_ProductDetails_def)

lemma flipkart_scrape_fields:
  "flipkart_scrape_product py cls now drv u = Inr d \<Longrightarrow>
     platform d = str ''Flipkart'' \<and> url d = u \<and> timestamp d = timestamp_default cls"
  using flipkart_try_block_unchanged [of py "drv u", THEN unchanged_eq]
  by (auto simp: flipkart_scrape_product_eq new_ProductDetails_def)

lemma amazon_navigation_failure:
  "get_result (drv u) = Inl e \<Longrightarrow>
     amazon_scrape_product py cls now drv u = Inr (new_ProductDetails cls now (str ''Amazon'') u)"
  by (simp add: amazon_scrape_product_eq amazon_try_block_def amazon_statements_def navigate_failure
      del: run_steps.simps)

lemma flipkart_navigation_failure:
  "get_result (drv u) = Inl e \<Longrightarrow>
     flipkart_scrape_product py cls now drv u = Inr (new_ProductDetails cls now (str ''Flipkart'') u)"
  by (simp add: flipkart_scrape_product_eq flipkart_try_block_def flipkart_statements_def navigate_failure
      del: run_steps.simps)

lemma price_loop_no_raise:
  "list_all (\<lambda>s. case wait_until pg s of Inl e \<Rightarrow> e = TimeoutException | Inr el \<Rightarrow> True) sels \<Longrightarrow>
     fst (price_loop py pg sels d) = None"
proof (induction sels)
  case Nil
  then show ?case by simp
next
  case (Cons a sels)
  then show ?case
    by (auto simp: wait_and_get_element_def Let_def dest: price_of_text_error
        split: sum.splits exn.splits)
qed

lemma responsive_prefix:
  "responsive pg (sels @ others) \<Longrightarrow> responsive pg sels"
  by (simp add: responsive_def)

lemma after_price_loop:
  assumes "responsive pg sels"
  shows "\<exists>d1. run_steps (navigate pg # price_loop py pg sels # fs) d = run_steps fs d1 \<and>
              stock_status d1 = stock_status d \<and> rating d1 = rating d \<and>
              review_count d1 = review_count d"
proof -
  obtain r d1 where l: "price_loop py pg sels d = (r, d1)" by (cases "price_loop py pg sels d")
  with assms price_loop_no_raise [of pg sels py d] have r: "r = None"
    by (simp add: responsive_def)
  have "stock_status d1 = stock_status d \<and> rating d1 = rating d \<and> review_count d1 = review_count d"
    using price_loop_unchanged [of py pg sels, THEN unchanged_eq, of d] l by simp
  moreover have "run_steps (navigate pg # price_loop py pg sels # fs) d = run_steps fs d1"
    using assms l r by (simp add: responsive_def navigate_def)
  ultimately show ?thesis by blast
qed

lemma amazon_stock_status_shape:
  "\<exists>x. amazon_stock_status pg d = (case wait_and_get_element pg ''#availability'' of
           Inl e \<Rightarrow> (Some e, d) | Inr el \<Rightarrow> (None, d\<lparr>stock_status := x el d\<rparr>))"
  by (rule exI [of _ "\<lambda>el d. case el of None \<Rightarrow> stock_status d | Some e \<Rightarrow> safe_get_text (Some e)"])
     (simp add: amazon_stock_status_def split: sum.splits option.splits)

lemma flipkart_stock_status_shape:
  "\<exists>x. flipkart_stock_status pg d = (case wait_and_get_element pg ''._16FRp0'' of
           Inl e \<Rightarrow> (Some e, d) | Inr el \<Rightarrow> (None, d\<lparr>stock_status := x el d\<rparr>))"
  by (rule exI [of _ "\<lambda>el d. if el \<noteq> None then str ''Out of Stock'' else str ''In Stock''"])
     (simp add: flipkart_stock_status_def split: sum.splits option.splits)

lemma after_stock_status:
  assumes "responsive pg (sels @ [sel])"
    and stock: "\<And>d. \<exists>x. stock pg d = (case wait_and_get_element pg sel of
                  Inl e \<Rightarrow> (Some e, d) | Inr el \<Rightarrow> (None, d\<lparr>stock_status := x el d\<rparr>))"
  shows "\<exists>d1. run_steps (navigate pg # price_loop py pg sels # stock pg # fs) d = run_steps fs d1 \<and>
              rating d1 = rating d"
proof -
  from assms(1) have r: "responsive pg sels" by (rule responsive_prefix)
  obtain d1 where d1: "run_steps (navigate pg # price_loop py pg sels # stock pg # fs) d =
      run_steps (stock pg # fs) d1" "rating d1 = rating d"
    using after_price_loop [OF r] by blast
  from assms(1) obtain el where "wait_and_get_element pg sel = Inr el"
    by (auto simp: responsive_def wait_and_get_element_def split: sum.splits)
  with stock [of d1] obtain x where "stock pg d1 = (None, d1\<lparr>stock_status := x\<rparr>)"
    by auto
  with d1 show ?thesis by auto
qed

subsection \<open>The sample texts\<close>

lemmas text_defs =
  str_def strip_def isspace_def remove_char_def rupee_def comma_def split_def safe_get_text_def

lemmas parse_defs =
  text_defs sample_python_def py_float_def py_int_def price_of_text_def
  amazon_rating_of_text_def review_count_of_text_def first_item_def

lemmas scrape_defs =
  navigate_def wait_and_get_element_def amazon_price_selectors_def flipkart_price_selectors_def
  amazon_stock_status_def flipkart_stock_status_def amazon_rating_def flipkart_rating_def
  review_count_step_def amazon_try_block_def flipkart_try_block_def amazon_statements_def
  flipkart_statements_def

lemma sold_out_unparseable:
  "price_of_text sample_python (strip (str ''Sold out'')) = Inl ValueError"
  by (simp add: parse_defs)

lemma rupee_text_parsed:
  "price_of_text sample_python (strip (rupee # str ''1,299.50 '')) = Inr (Finite (2599 / 2))"
  by (simp add: parse_defs)

lemma stars_tokens:
  "split (strip (str ''4.3 out of 5 stars'')) = [str ''4.3'', str ''out'', str ''of'', str ''5'', str ''stars'']"
  by (simp add: text_defs)

lemma stars_first_token: "float_of_str sample_python (str ''4.3'') = Some (Finite double_4_3)"
  by (simp add: sample_python_def str_def)

lemma stars_whole_text: "float_of_str sample_python (strip (str ''4.3 out of 5 stars'')) = None"
  by (simp add: sample_python_def text_defs)

lemma overrated_text: "py_float sample_python (strip (str ''7.5'')) = Inr (Finite (15 / 2))"
  by (simp add: parse_defs)

lemma overrated_review_text:
  "review_count_of_text sample_python (strip (str ''1,234 Ratings'')) = Inr 1234"
  by (simp add: parse_defs)

lemma platform_keys_differ: "str ''flipkart'' \<noteq> str ''amazon''"
  by (simp add: str_def)

subsection \<open>Exceptions stay inside \<open>scrape_product\<close>\<close>

text \<open>
  Claim C9. For every URL and every outcome of the driver, \<open>scrape_product\<close> of either
  scraper returns a record and raises nothing; the record has the platform name of the
  scraper and the URL given. When the navigation itself fails, every other field has its
  default. When the statements \<open>fs\<close> of the block complete and the next one, \<open>f\<close>,
  raises, the record returned is the one that \<open>f\<close> leaves: the fields extracted by
  \<open>fs\<close> are kept, the others have their defaults.
\<close>

theorem scrape_product_never_raises:
  "(\<exists>d. amazon_scrape_product py cls now drv u = Inr d \<and> platform d = str ''Amazon'' \<and> url d = u \<and>
        (\<forall>e. get_result (drv u) = Inl e \<longrightarrow> d = new_ProductDetails cls now (str ''Amazon'') u) \<and>
        (\<forall>fs f gs d1 e d2.
            amazon_statements py (drv u) = fs @ f # gs \<and>
            run_steps fs (new_ProductDetails cls now (str ''Amazon'') u) = (None, d1) \<and>
            f d1 = (Some e, d2) \<longrightarrow> d = d2)) \<and>
   (\<exists>d. flipkart_scrape_product py cls now drv u = Inr d \<and> platform d = str ''Flipkart'' \<and> url d = u \<and>
        (\<forall>e. get_result (drv u) = Inl e \<longrightarrow> d = new_ProductDetails cls now (str ''Flipkart'') u) \<and>
        (\<forall>fs f gs d1 e d2.
            flipkart_statements py (drv u) = fs @ f # gs \<and>
            run_steps fs (new_ProductDetails cls now (str ''Flipkart'') u) = (None, d1) \<and>
            f d1 = (Some e, d2) \<longrightarrow> d = d2))"
proof -
  let ?a = "snd (amazon_try_block py (drv u) (new_ProductDetails cls now (str ''Amazon'') u))"
  let ?f = "snd (flipkart_try_block py (drv u) (new_ProductDetails cls now (str ''Flipkart'') u))"
  have a: "amazon_scrape_product py cls now drv u = Inr ?a"
    by (rule amazon_scrape_product_eq)
  have f: "flipkart_scrape_product py cls now drv u = Inr ?f"
    by (rule flipkart_scrape_product_eq)
  have na: "\<forall>e. get_result (drv u) = Inl e \<longrightarrow> ?a = new_ProductDetails cls now (str ''Amazon'') u"
    using amazon_navigation_failure [of drv u _ py cls now] a by auto
  have nf: "\<forall>e. get_result (drv u) = Inl e \<longrightarrow> ?f = new_ProductDetails cls now (str ''Flipkart'') u"
    using flipkart_navigation_failure [of drv u _ py cls now] f by auto
  have pa: "\<forall>fs f gs d1 e d2.
            amazon_statements py (drv u) = fs @ f # gs \<and>
            run_steps fs (new_ProductDetails cls now (str ''Amazon'') u) = (None, d1) \<and>
            f d1 = (Some e, d2) \<longrightarrow> ?a = d2"
    by (auto simp: amazon_try_block_def run_steps_failure)
  have pf: "\<forall>fs f gs d1 e d2.
            flipkart_statements py (drv u) = fs @ f # gs \<and>
            run_steps fs (new_ProductDetails cls now (str ''Flipkart'') u) = (None, d1) \<and>
            f d1 = (Some e, d2) \<longrightarrow> ?f = d2"
    by (auto simp: flipkart_try_block_def run_steps_failure)
  from a na pa amazon_scrape_fields [OF a]
  have A: "\<exists>d. amazon_scrape_product py cls now drv u = Inr d \<and> platform d = str ''Amazon'' \<and> url d = u \<and>
        (\<forall>e. get_result (drv u) = Inl e \<longrightarrow> d = new_ProductDetails cls now (str ''Amazon'') u) \<and>
        (\<forall>fs f gs d1 e d2.
            amazon_statements py (drv u) = fs @ f # gs \<and>
            run_steps fs (new_ProductDetails cls now (str ''Amazon'') u) = (None, d1) \<and>
            f d1 = (Some e, d2) \<longrightarrow> d = d2)"
    by (intro exI [of _ ?a]) simp
  from f nf pf flipkart_scrape_fields [OF f]
  have F: "\<exists>d. flipkart_scrape_product py cls now drv u = Inr d \<and> platform d = str ''Flipkart'' \<and> url d = u \<and>
        (\<forall>e. get_result (drv u) = Inl e \<longrightarrow> d = new_ProductDetails cls now (str ''Flipkart'') u) \<and>
        (\<forall>fs f gs d1 e d2.
            flipkart_statements py (drv u) = fs @ f # gs \<and>
            run_steps fs (new_ProductDetails cls now (str ''Flipkart'') u) = (None, d1) \<and>
            f d1 = (Some e, d2) \<longrightarrow> d = d2)"
    by (intro exI [of _ ?f]) simp
  from A F show ?thesis by (rule conjI)
qed

lemma crashing_price_text:
  "price_of_text sample_python (strip (str ''1,299'')) = Inr (Finite 1299)"
  by (simp add: parse_defs)

text \<open>
  Claim C9, an instance. A driver that cannot load the page: the scraper of Flipkart
  returns the record of defaults. A driver that fails after the first price lookup: the scraper of Amazon
  returns the record with the price and nothing else extracted.
\<close>

theorem scrape_product_never_raises_witness:
  "flipkart_scrape_product sample_python sample_class second_call offline_driver sample_url =
     Inr (new_ProductDetails sample_class second_call (str ''Flipkart'') sample_url) \<and>
   amazon_scrape_product sample_python sample_class first_call crashing_driver sample_url =
     Inr ((new_ProductDetails sample_class first_call (str ''Amazon'') sample_url)
            \<lparr>price := Finite 1299\<rparr>)"
proof -
  let ?d0 = "new_ProductDetails sample_class first_call (str ''Amazon'') sample_url"
  let ?pg = "crashing_driver sample_url"
  have split: "amazon_statements sample_python ?pg =
      [navigate ?pg, price_loop sample_python ?pg amazon_price_selectors] @ amazon_stock_status ?pg #
      [amazon_rating sample_python ?pg, review_count_step sample_python ''#acrCustomerReviewText'' ?pg]"
    by (simp add: amazon_statements_def)
  have before: "run_steps [navigate ?pg, price_loop sample_python ?pg amazon_price_selectors] ?d0 =
      (None, ?d0\<lparr>price := Finite 1299\<rparr>)"
    by (simp add: navigate_def amazon_price_selectors_def wait_and_get_element_def
        crashing_driver_def safe_get_text_def crashing_price_text)
  have failing: "amazon_stock_status ?pg (?d0\<lparr>price := Finite 1299\<rparr>) =
      (Some WebDriverException, ?d0\<lparr>price := Finite 1299\<rparr>)"
    by (simp add: amazon_stock_status_def wait_and_get_element_def crashing_driver_def)
  have off: "get_result (offline_driver sample_url) = Inl WebDriverException"
    by (simp add: offline_driver_def)
  let ?a = "snd (amazon_try_block sample_python ?pg ?d0)"
  from scrape_product_never_raises [of sample_python sample_class first_call crashing_driver sample_url]
  have "\<exists>d. Inr ?a = (Inr d :: exn + ProductDetails) \<and>
      (\<forall>fs f gs d1 e d2. amazon_statements sample_python ?pg = fs @ f # gs \<and>
          run_steps fs ?d0 = (None, d1) \<and> f d1 = (Some e, d2) \<longrightarrow> d = d2)"
    unfolding amazon_scrape_product_eq by (elim conjE exE) (intro exI conjI; assumption)
  then have "\<forall>fs f gs d1 e d2. amazon_statements sample_python ?pg = fs @ f # gs \<and>
          run_steps fs ?d0 = (None, d1) \<and> f d1 = (Some e, d2) \<longrightarrow> ?a = d2"
    by (elim exE conjE) (simp only: sum.inject)
  from this [rule_format, OF conjI [OF split conjI [OF before failing]]]
  have "amazon_scrape_product sample_python sample_class first_call crashing_driver sample_url =
     Inr (?d0\<lparr>price := Finite 1299\<rparr>)"
    by (simp add: amazon_scrape_product_eq)
  moreover from scrape_product_never_raises [of sample_python sample_class second_call offline_driver sample_url]
    off
  have "flipkart_scrape_product sample_python sample_class second_call offline_driver sample_url =
     Inr (new_ProductDetails sample_class second_call (str ''Flipkart'') sample_url)"
    by blast
  ultimately show ?thesis by simp
qed

subsection \<open>The time stamp of a record\<close>

lemma scraper_timestamp:
  "scrapers py self key = Some scraper \<Longrightarrow> scraper cls now u = Inr d \<Longrightarrow>
     timestamp d = timestamp_default cls"
  using amazon_scrape_fields flipkart_scrape_fields
  by (auto simp: scrapers_def split: if_splits)

lemma collect_results_timestamps:
  "list_all (\<lambda>r. timestamp r = timestamp_default cls) results \<Longrightarrow>
     list_all (\<lambda>r. timestamp r = timestamp_default cls)
       (collect_results py cls clock self n urls results)"
proof (induction urls arbitrary: n results)
  case Nil
  then show ?case by simp
next
  case (Cons item urls)
  obtain key u where item: "item = (key, u)" by (cases item)
  show ?case
  proof (cases "scrapers py self key")
    case None
    with item Cons show ?thesis by simp
  next
    case (Some scraper)
    show ?thesis
    proof (cases "scraper cls (clock n) u")
      case (Inl e)
      with item Some Cons show ?thesis by simp
    next
      case (Inr d)
      with scraper_timestamp [OF Some Inr] Cons.prems
      have "list_all (\<lambda>r. timestamp r = timestamp_default cls) (results @ [d])" by simp
      from Cons.IH [OF this] item Some Inr show ?thesis by simp
    qed
  qed
qed

text \<open>
  Claim C10. The records that the scrapers build in one run, where the class was defined
  once, all carry the same time stamp, the default that the class holds; the clock
  readings \<open>now1\<close> and \<open>now2\<close> of the two calls play no part. So do all the records
  that \<open>analyze_product\<close> collects.
\<close>

theorem timestamps_identical:
  "(scrape1 \<in> {amazon_scrape_product py, flipkart_scrape_product py} \<and>
    scrape2 \<in> {amazon_scrape_product py, flipkart_scrape_product py} \<and>
    scrape1 cls now1 drv1 u1 = Inr d1 \<and> scrape2 cls now2 drv2 u2 = Inr d2 \<longrightarrow>
      timestamp d1 = timestamp d2 \<and> timestamp d1 = timestamp_default cls) \<and>
   list_all (\<lambda>r. timestamp r = timestamp_default cls) (collect_results py cls clock self 0 urls [])"
  using amazon_scrape_fields flipkart_scrape_fields
    collect_results_timestamps [of cls "[]" py clock self 0 urls]
  by auto

text \<open>Claim C10, an instance: two records built 37 seconds apart, by different scrapers
  on different pages.\<close>

theorem timestamps_identical_witness:
  "amazon_scrape_product sample_python sample_class first_call offline_driver sample_url =
     Inr (new_ProductDetails sample_class first_call (str ''Amazon'') sample_url) \<and>
   flipkart_scrape_product sample_python sample_class second_call blank_driver sample_url =
     Inr ((new_ProductDetails sample_class second_call (str ''Flipkart'') sample_url)
            \<lparr>stock_status := str ''In Stock''\<rparr>) \<and>
   timestamp (new_ProductDetails sample_class first_call (str ''Amazon'') sample_url) =
   timestamp ((new_ProductDetails sample_class second_call (str ''Flipkart'') sample_url)
            \<lparr>stock_status := str ''In Stock''\<rparr>)"
proof -
  have a: "amazon_scrape_product sample_python sample_class first_call offline_driver sample_url =
     Inr (new_ProductDetails sample_class first_call (str ''Amazon'') sample_url)"
    by (simp add: amazon_navigation_failure offline_driver_def)
  have f: "flipkart_scrape_product sample_python sample_class second_call blank_driver sample_url =
     Inr ((new_ProductDetails sample_class second_call (str ''Flipkart'') sample_url)
            \<lparr>stock_status := str ''In Stock''\<rparr>)"
    by (simp add: flipkart_scrape_product_eq scrape_defs blank_driver_def)
  from timestamps_identical [of "amazon_scrape_product sample_python" sample_python
      "flipkart_scrape_product sample_python" sample_class
      first_call offline_driver sample_url _ second_call blank_driver sample_url] a f
  show ?thesis by simp
qed

text \<open>
  Claim C7. The time stamp of a record is not the time of its construction: with the
  module loaded at 09:00:00, the records built at 10:30:05 and at 10:30:42 both carry
  the text of 09:00:00.
\<close>

theorem timestamp_is_module_load_time:
  "map_sum id timestamp (amazon_scrape_product sample_python sample_class first_call blank_driver sample_url) =
     Inr (str ''2024-01-15 09:00:00'') \<and>
   map_sum id timestamp (flipkart_scrape_product sample_python sample_class second_call blank_driver sample_url) =
     Inr (str ''2024-01-15 09:00:00'') \<and>
   strftime first_call = str ''2024-01-15 10:30:05'' \<and>
   strftime second_call = str ''2024-01-15 10:30:42''"
proof -
  have "timestamp_default sample_class = str ''2024-01-15 09:00:00''"
    by (simp add: sample_class_def define_ProductDetails_def module_loaded_def strftime_def
        pad2_def pad4_def digit_char_def str_def)
  moreover have "strftime first_call = str ''2024-01-15 10:30:05''"
    by (simp add: first_call_def strftime_def pad2_def pad4_def digit_char_def str_def)
  moreover have "strftime second_call = str ''2024-01-15 10:30:42''"
    by (simp add: second_call_def strftime_def pad2_def pad4_def digit_char_def str_def)
  ultimately show ?thesis
    using amazon_try_block_unchanged(3) [THEN unchanged_eq]
      flipkart_try_block_unchanged(3) [THEN unchanged_eq]
    by (simp add: amazon_scrape_product_eq flipkart_scrape_product_eq new_ProductDetails_def)
qed

subsection \<open>The price\<close>

lemma price_loop_hit:
  "list_all (skipped py pg) pre \<Longrightarrow> yields py pg s v \<Longrightarrow>
     price_loop py pg (pre @ s # post) d = (None, d\<lparr>price := v\<rparr>)"
proof (induction pre)
  case Nil
  then show ?case
    by (auto simp: yields_def wait_and_get_element_def split: sum.splits)
next
  case (Cons a pre)
  then show ?case
    by (auto simp: skipped_def wait_and_get_element_def split: sum.splits)
qed

lemma price_loop_exhausted:
  "list_all (skipped py pg) sels \<Longrightarrow> price_loop py pg sels d = (None, d)"
proof (induction sels)
  case Nil
  then show ?case by simp
next
  case (Cons a sels)
  then show ?case
    by (auto simp: skipped_def wait_and_get_element_def split: sum.splits)
qed

lemma amazon_price_of_loop:
  assumes nav: "get_result (drv u) = Inr ()"
    and loop: "price_loop py (drv u) amazon_price_selectors
                 (new_ProductDetails cls now (str ''Amazon'') u) = (None, d1)"
  shows "\<exists>d. amazon_scrape_product py cls now drv u = Inr d \<and> price d = price d1"
proof -
  have "amazon_try_block py (drv u) (new_ProductDetails cls now (str ''Amazon'') u) =
          run_steps [amazon_stock_status (drv u), amazon_rating py (drv u),
                     review_count_step py ''#acrCustomerReviewText'' (drv u)] d1"
    using nav loop by (simp add: amazon_try_block_def amazon_statements_def navigate_def)
  moreover have "price (snd (run_steps [amazon_stock_status (drv u), amazon_rating py (drv u),
                     review_count_step py ''#acrCustomerReviewText'' (drv u)] d1)) = price d1"
    by (rule run_steps_price_kept) (simp add: step_unchanged)
  ultimately show ?thesis
    by (simp add: amazon_scrape_product_eq)
qed

lemma flipkart_price_of_loop:
  assumes nav: "get_result (drv u) = Inr ()"
    and loop: "price_loop py (drv u) flipkart_price_selectors
                 (new_ProductDetails cls now (str ''Flipkart'') u) = (None, d1)"
  shows "\<exists>d. flipkart_scrape_product py cls now drv u = Inr d \<and> price d = price d1"
proof -
  have "flipkart_try_block py (drv u) (new_ProductDetails cls now (str ''Flipkart'') u) =
          run_steps [flipkart_stock_status (drv u), flipkart_rating py (drv u),
                     review_count_step py ''span.Y1HWO0'' (drv u)] d1"
    using nav loop by (simp add: flipkart_try_block_def flipkart_statements_def navigate_def)
  moreover have "price (snd (run_steps [flipkart_stock_status (drv u), flipkart_rating py (drv u),
                     review_count_step py ''span.Y1HWO0'' (drv u)] d1)) = price d1"
    by (rule run_steps_price_kept) (simp add: step_unchanged)
  ultimately show ?thesis
    by (simp add: flipkart_scrape_product_eq)
qed

text \<open>
  Claim C1. A text parses when \<open>float\<close> returns a value for it, whatever texts the
  interpreter takes for numbers. For every list of price selectors, taken in its order:
  when the selectors \<open>pre\<close> are passed over, each because no element is found for it
  or because the text of its element does not parse, and the next selector \<open>s\<close> has
  an element whose text, without the rupee sign and the commas, parses to \<open>v\<close>, the
  loop stores \<open>v\<close> as the price and stops, whatever the selectors \<open>post\<close> after it
  would give. When every selector is passed over, the price is left as it was. For
  both scrapers, once the page is loaded, the record returned has that price \<open>v\<close>,
  and the default 0.0 when the list is exhausted.
\<close>

theorem price_is_first_parseable:
  "(list_all (skipped py pg) pre \<and> yields py pg s v \<longrightarrow>
      price_loop py pg (pre @ s # post) d = (None, d\<lparr>price := v\<rparr>)) \<and>
   (list_all (skipped py pg) sels \<longrightarrow> price_loop py pg sels d = (None, d)) \<and>
   ((scrape, selectors) \<in> {(amazon_scrape_product py, amazon_price_selectors),
                            (flipkart_scrape_product py, flipkart_price_selectors)} \<and>
    get_result (drv u) = Inr () \<longrightarrow>
      (selectors = pre @ s # post \<and> list_all (skipped py (drv u)) pre \<and> yields py (drv u) s v \<longrightarrow>
         (\<exists>r. scrape cls now drv u = Inr r \<and> price r = v)) \<and>
      (list_all (skipped py (drv u)) selectors \<longrightarrow>
         (\<exists>r. scrape cls now drv u = Inr r \<and> price r = Finite 0)))"
proof (intro conjI impI)
  assume "list_all (skipped py pg) pre \<and> yields py pg s v"
  then show "price_loop py pg (pre @ s # post) d = (None, d\<lparr>price := v\<rparr>)"
    by (simp add: price_loop_hit)
next
  assume "list_all (skipped py pg) sels"
  then show "price_loop py pg sels d = (None, d)"
    by (rule price_loop_exhausted)
next
  assume site: "(scrape, selectors) \<in> {(amazon_scrape_product py, amazon_price_selectors),
                            (flipkart_scrape_product py, flipkart_price_selectors)} \<and>
    get_result (drv u) = Inr ()"
  assume hit: "selectors = pre @ s # post \<and> list_all (skipped py (drv u)) pre \<and> yields py (drv u) s v"
  then have "price_loop py (drv u) selectors d0 = (None, d0\<lparr>price := v\<rparr>)" for d0
    by (simp add: price_loop_hit)
  with site show "\<exists>r. scrape cls now drv u = Inr r \<and> price r = v"
    using amazon_price_of_loop [of drv u py cls now] flipkart_price_of_loop [of drv u py cls now]
    by auto
next
  assume site: "(scrape, selectors) \<in> {(amazon_scrape_product py, amazon_price_selectors),
                            (flipkart_scrape_product py, flipkart_price_selectors)} \<and>
    get_result (drv u) = Inr ()"
  assume "list_all (skipped py (drv u)) selectors"
  then have "price_loop py (drv u) selectors d0 = (None, d0)" for d0
    by (rule price_loop_exhausted)
  with site show "\<exists>r. scrape cls now drv u = Inr r \<and> price r = Finite 0"
    using amazon_price_of_loop [of drv u py cls now] flipkart_price_of_loop [of drv u py cls now]
    by (auto simp: new_ProductDetails_def)
qed

text \<open>
  Claim C1, the case of three selectors: the first has an element with the text \<open>Sold out\<close>, the
  second has none, the third has an element with a price of 1,299.50 rupees.
\<close>

theorem price_is_first_parseable_witness:
  "list_all (skipped sample_python (fallback_driver sample_url))
     [''span.a-price-whole'', ''span.a-price[data-a-size=xl] ''] \<and>
   yields sample_python (fallback_driver sample_url) ''div.a-align-center, .aok-align-center'' (Finite (2599 / 2)) \<and>
   map_sum id price (amazon_scrape_product sample_python sample_class first_call fallback_driver sample_url) =
     Inr (Finite (2599 / 2))"
proof -
  have sk: "list_all (skipped sample_python (fallback_driver sample_url))
     [''span.a-price-whole'', ''span.a-price[data-a-size=xl] '']"
    by (simp add: skipped_def fallback_driver_def safe_get_text_def sold_out_unparseable)
  have y: "yields sample_python (fallback_driver sample_url) ''div.a-align-center, .aok-align-center'' (Finite (2599 / 2))"
    by (simp add: yields_def fallback_driver_def safe_get_text_def rupee_text_parsed)
  have nav: "get_result (fallback_driver sample_url) = Inr ()"
    by (simp add: fallback_driver_def)
  have sels: "amazon_price_selectors =
      [''span.a-price-whole'', ''span.a-price[data-a-size=xl] ''] @
      ''div.a-align-center, .aok-align-center'' # []"
    by (simp add: amazon_price_selectors_def)
  from price_is_first_parseable [where scrape = "amazon_scrape_product sample_python" and py = sample_python
      and selectors = amazon_price_selectors and drv = fallback_driver and u = sample_url
      and pre = "[''span.a-price-whole'', ''span.a-price[data-a-size=xl] '']"
      and s = "''div.a-align-center, .aok-align-center''" and post = "[]" and v = "Finite (2599 / 2)"
      and cls = sample_class and now = first_call]
    sk y nav sels
  have "\<exists>r. amazon_scrape_product sample_python sample_class first_call fallback_driver sample_url = Inr r \<and>
            price r = Finite (2599 / 2)"
    by blast
  with sk y show ?thesis by auto
qed

subsection \<open>The stock status of Flipkart\<close>

text \<open>
  Claim C8. When the page is reached, that is the driver loads it and answers the
  lookups of the price selectors, each with an element or a time-out, the stock status
  of the record of Flipkart depends only on the lookup of the marker \<open>._16FRp0\<close>: it is
  \<open>Out of Stock\<close> when an element is found, whatever element it is and whatever its
  text, and \<open>In Stock\<close> when the wait times out.
\<close>

theorem flipkart_stock_status_binary:
  assumes "responsive (drv u) flipkart_price_selectors"
    and "flipkart_scrape_product py cls now drv u = Inr d"
  shows "(\<forall>el. wait_until (drv u) ''._16FRp0'' = Inr el \<longrightarrow> stock_status d = str ''Out of Stock'') \<and>
         (wait_until (drv u) ''._16FRp0'' = Inl TimeoutException \<longrightarrow> stock_status d = str ''In Stock'')"
proof -
  let ?pg = "drv u"
  let ?rest = "[flipkart_rating py ?pg, review_count_step py ''span.Y1HWO0'' ?pg]"
  obtain d1 where d1: "flipkart_try_block py ?pg (new_ProductDetails cls now (str ''Flipkart'') u) =
      run_steps (flipkart_stock_status ?pg # ?rest) d1"
    using after_price_loop [OF assms(1)] unfolding flipkart_try_block_def flipkart_statements_def by blast
  have kept: "stock_status (snd (run_steps ?rest d2)) = stock_status d2" for d2
    by (rule run_steps_stock_status_kept) (simp add: step_unchanged)
  have d: "d = snd (run_steps (flipkart_stock_status ?pg # ?rest) d1)"
    using assms(2) d1 by (simp add: flipkart_scrape_product_eq)
  show ?thesis
  proof (intro conjI allI impI)
    fix el assume "wait_until ?pg ''._16FRp0'' = Inr el"
    then have "flipkart_stock_status ?pg d1 = (None, d1\<lparr>stock_status := str ''Out of Stock''\<rparr>)"
      by (simp add: flipkart_stock_status_def wait_and_get_element_def)
    then show "stock_status d = str ''Out of Stock''"
      using kept [of "d1\<lparr>stock_status := str ''Out of Stock''\<rparr>"] d by simp
  next
    assume "wait_until ?pg ''._16FRp0'' = Inl TimeoutException"
    then have "flipkart_stock_status ?pg d1 = (None, d1\<lparr>stock_status := str ''In Stock''\<rparr>)"
      by (simp add: flipkart_stock_status_def wait_and_get_element_def)
    then show "stock_status d = str ''In Stock''"
      using kept [of "d1\<lparr>stock_status := str ''In Stock''\<rparr>"] d by simp
  qed
qed

text \<open>Claim C8, an instance: a page whose marker element has the text \<open>In Stock\<close>; the
  status is \<open>Out of Stock\<close>.\<close>

theorem flipkart_stock_status_binary_witness:
  "responsive (unavailable_driver sample_url) flipkart_price_selectors \<and>
   wait_until (unavailable_driver sample_url) ''._16FRp0'' = Inr (Element (Inr (str ''In Stock''))) \<and>
   map_sum id stock_status
     (flipkart_scrape_product sample_python sample_class first_call unavailable_driver sample_url) =
     Inr (str ''Out of Stock'')"
proof -
  have r: "responsive (unavailable_driver sample_url) flipkart_price_selectors"
    by (simp add: responsive_def unavailable_driver_def flipkart_price_selectors_def)
  have w: "wait_until (unavailable_driver sample_url) ''._16FRp0'' =
      Inr (Element (Inr (str ''In Stock'')))"
    by (simp add: unavailable_driver_def)
  from flipkart_stock_status_binary [of unavailable_driver sample_url sample_python sample_class first_call,
      OF r flipkart_scrape_product_eq] w r
  show ?thesis by (simp add: flipkart_scrape_product_eq)
qed

subsection \<open>The ranges of the numeric fields\<close>

text \<open>
  Claim C5 does not hold as stated: no statement checks a range. On a page of Flipkart
  whose rating element has the text \<open>7.5\<close> the record has the rating 7.5, which is
  not at most 5.
\<close>

theorem rating_outside_domain_counterexample:
  "map_sum id rating
     (flipkart_scrape_product sample_python sample_class first_call overrated_driver sample_url) =
     Inr (Finite (15 / 2)) \<and>
   \<not> float_le (Finite (15 / 2)) (Finite 5)"
  by (simp add: flipkart_scrape_product_eq scrape_defs overrated_driver_def safe_get_text_def
      overrated_text overrated_review_text float_le_def)

text \<open>
  Claim C5, amended. In a record of either scraper, each of price, rating and review
  count is the default 0 or the number that \<open>float\<close> or \<open>int\<close> returned for the
  text of an element found for that field on the page, whatever that number is. So when
  the extraction fails entirely, the page not loading or no element being found, all
  three are 0 and within their ranges.
\<close>

theorem numeric_fields_default_or_parsed:
  "(amazon_scrape_product py cls now drv u = Inr d \<longrightarrow>
      (price d = Finite 0 \<or> (\<exists>s\<in>set amazon_price_selectors. yields py (drv u) s (price d))) \<and>
      (rating d = Finite 0 \<or> (\<exists>el. wait_until (drv u) ''span.a-icon-alt'' = Inr el \<and>
                              amazon_rating_of_text py (safe_get_text (Some el)) = Inr (rating d))) \<and>
      (review_count d = 0 \<or> (\<exists>el. wait_until (drv u) ''#acrCustomerReviewText'' = Inr el \<and>
                              review_count_of_text py (safe_get_text (Some el)) = Inr (review_count d)))) \<and>
   (flipkart_scrape_product py cls now drv u = Inr d \<longrightarrow>
      (price d = Finite 0 \<or> (\<exists>s\<in>set flipkart_price_selectors. yields py (drv u) s (price d))) \<and>
      (rating d = Finite 0 \<or> (\<exists>el. wait_until (drv u) ''div.XQDdHH'' = Inr el \<and>
                              py_float py (safe_get_text (Some el)) = Inr (rating d))) \<and>
      (review_count d = 0 \<or> (\<exists>el. wait_until (drv u) ''span.Y1HWO0'' = Inr el \<and>
                              review_count_of_text py (safe_get_text (Some el)) = Inr (review_count d)))) \<and>
   ((amazon_scrape_product py cls now drv u = Inr d \<or> flipkart_scrape_product py cls now drv u = Inr d) \<and>
    ((\<exists>e. get_result (drv u) = Inl e) \<or> (\<forall>s. \<exists>e. wait_until (drv u) s = Inl e)) \<longrightarrow>
      price d = Finite 0 \<and> rating d = Finite 0 \<and> review_count d = 0 \<and>
      float_le (Finite 0) (price d) \<and> float_le (Finite 0) (rating d) \<and>
      float_le (rating d) (Finite 5) \<and> 0 \<le> review_count d)"
proof -
  let ?a = "new_ProductDetails cls now (str ''Amazon'') u"
  let ?f = "new_ProductDetails cls now (str ''Flipkart'') u"
  have zero: "price ?a = Finite 0" "rating ?a = Finite 0" "review_count ?a = 0"
    "price ?f = Finite 0" "rating ?f = Finite 0" "review_count ?f = 0"
    by (simp_all add: new_ProductDetails_def)
  have A: "amazon_scrape_product py cls now drv u = Inr d \<longrightarrow>
      (price d = Finite 0 \<or> (\<exists>s\<in>set amazon_price_selectors. yields py (drv u) s (price d))) \<and>
      (rating d = Finite 0 \<or> (\<exists>el. wait_until (drv u) ''span.a-icon-alt'' = Inr el \<and>
                              amazon_rating_of_text py (safe_get_text (Some el)) = Inr (rating d))) \<and>
      (review_count d = 0 \<or> (\<exists>el. wait_until (drv u) ''#acrCustomerReviewText'' = Inr el \<and>
                              review_count_of_text py (safe_get_text (Some el)) = Inr (review_count d)))"
    using amazon_try_block_writes [where py = py and pg = "drv u", THEN writes_eq, of ?a] zero
    by (auto simp: amazon_scrape_product_eq)
  have F: "flipkart_scrape_product py cls now drv u = Inr d \<longrightarrow>
      (price d = Finite 0 \<or> (\<exists>s\<in>set flipkart_price_selectors. yields py (drv u) s (price d))) \<and>
      (rating d = Finite 0 \<or> (\<exists>el. wait_until (drv u) ''div.XQDdHH'' = Inr el \<and>
                              py_float py (safe_get_text (Some el)) = Inr (rating d))) \<and>
      (review_count d = 0 \<or> (\<exists>el. wait_until (drv u) ''span.Y1HWO0'' = Inr el \<and>
                              review_count_of_text py (safe_get_text (Some el)) = Inr (review_count d)))"
    using flipkart_try_block_writes [where py = py and pg = "drv u", THEN writes_eq, of ?f] zero
    by (auto simp: flipkart_scrape_product_eq)
  have N: "(amazon_scrape_product py cls now drv u = Inr d \<or> flipkart_scrape_product py cls now drv u = Inr d) \<and>
    ((\<exists>e. get_result (drv u) = Inl e) \<or> (\<forall>s. \<exists>e. wait_until (drv u) s = Inl e)) \<longrightarrow>
      price d = Finite 0 \<and> rating d = Finite 0 \<and> review_count d = 0 \<and>
      float_le (Finite 0) (price d) \<and> float_le (Finite 0) (rating d) \<and>
      float_le (rating d) (Finite 5) \<and> 0 \<le> review_count d"
  proof
    assume h: "(amazon_scrape_product py cls now drv u = Inr d \<or> flipkart_scrape_product py cls now drv u = Inr d) \<and>
      ((\<exists>e. get_result (drv u) = Inl e) \<or> (\<forall>s. \<exists>e. wait_until (drv u) s = Inl e))"
    then have site: "amazon_scrape_product py cls now drv u = Inr d \<or>
        flipkart_scrape_product py cls now drv u = Inr d"
      by blast
    from h have "(\<exists>e. get_result (drv u) = Inl e) \<or> (\<forall>s. \<exists>e. wait_until (drv u) s = Inl e)"
      by blast
    then have "price d = Finite 0 \<and> rating d = Finite 0 \<and> review_count d = 0"
    proof
      assume "\<exists>e. get_result (drv u) = Inl e"
      then obtain e where "get_result (drv u) = Inl e" by blast
      from amazon_navigation_failure [of drv u e py cls now, OF this]
        flipkart_navigation_failure [of drv u e py cls now, OF this] site zero
      show ?thesis by auto
    next
      assume "\<forall>s. \<exists>e. wait_until (drv u) s = Inl e"
      then have no: "wait_until (drv u) s \<noteq> Inr el" for s el
        by (metis sum.distinct(1))
      then have "\<not> yields py (drv u) s v" for s v
        by (auto simp: yields_def split: sum.splits)
      with site A F no show ?thesis by blast
    qed
    then show "price d = Finite 0 \<and> rating d = Finite 0 \<and> review_count d = 0 \<and>
      float_le (Finite 0) (price d) \<and> float_le (Finite 0) (rating d) \<and>
      float_le (rating d) (Finite 5) \<and> 0 \<le> review_count d"
      by (simp add: float_le_def)
  qed
  from A F N show ?thesis by blast
qed

text \<open>
  Claim C5, amended, two instances. On a page without any element the three fields are
  0. On the page of Flipkart with the rating text \<open>7.5\<close> and the review text
  \<open>1,234 Ratings\<close> the price is the default and the other two are the numbers parsed.
\<close>

theorem numeric_fields_default_or_parsed_witness:
  "map_sum id price
     (amazon_scrape_product sample_python sample_class first_call blank_driver sample_url) =
     Inr (Finite 0) \<and>
   map_sum id rating
     (amazon_scrape_product sample_python sample_class first_call blank_driver sample_url) =
     Inr (Finite 0) \<and>
   map_sum id review_count
     (amazon_scrape_product sample_python sample_class first_call blank_driver sample_url) = Inr 0 \<and>
   flipkart_scrape_product sample_python sample_class first_call overrated_driver sample_url =
     Inr ((new_ProductDetails sample_class first_call (str ''Flipkart'') sample_url)
            \<lparr>stock_status := str ''In Stock'', rating := Finite (15 / 2), review_count := 1234\<rparr>)"
proof -
  have "\<forall>s. \<exists>e. wait_until (blank_driver sample_url) s = Inl e"
    by (simp add: blank_driver_def)
  with numeric_fields_default_or_parsed [of sample_python sample_class first_call blank_driver
      sample_url
      "snd (amazon_try_block sample_python (blank_driver sample_url)
             (new_ProductDetails sample_class first_call (str ''Amazon'') sample_url))"]
  have "map_sum id price
     (amazon_scrape_product sample_python sample_class first_call blank_driver sample_url) =
     Inr (Finite 0) \<and>
   map_sum id rating
     (amazon_scrape_product sample_python sample_class first_call blank_driver sample_url) =
     Inr (Finite 0) \<and>
   map_sum id review_count
     (amazon_scrape_product sample_python sample_class first_call blank_driver sample_url) = Inr 0"
    by (simp add: amazon_scrape_product_eq)
  moreover
  have "flipkart_scrape_product sample_python sample_class first_call overrated_driver sample_url =
     Inr ((new_ProductDetails sample_class first_call (str ''Flipkart'') sample_url)
            \<lparr>stock_status := str ''In Stock'', rating := Finite (15 / 2), review_count := 1234\<rparr>)"
    by (simp add: flipkart_scrape_product_eq scrape_defs overrated_driver_def safe_get_text_def
        overrated_text overrated_review_text)
  ultimately show ?thesis by simp
qed

subsection \<open>The rating\<close>

lemma amazon_rating_of_stripped:
  assumes "responsive (drv u) (amazon_price_selectors @ [''#availability''])"
    and "wait_until (drv u) ''span.a-icon-alt'' = Inr (Element (Inr t))"
    and "amazon_scrape_product py cls now drv u = Inr d"
  shows "rating d = (case amazon_rating_of_text py (strip t) of Inr v \<Rightarrow> v | Inl e \<Rightarrow> Finite 0)"
proof -
  let ?pg = "drv u"
  let ?rest = "[review_count_step py ''#acrCustomerReviewText'' ?pg]"
  obtain d1 where d1: "amazon_try_block py ?pg (new_ProductDetails cls now (str ''Amazon'') u) =
      run_steps (amazon_rating py ?pg # ?rest) d1"
      "rating d1 = rating (new_ProductDetails cls now (str ''Amazon'') u)"
    using after_stock_status [OF assms(1), of amazon_stock_status, OF amazon_stock_status_shape]
    unfolding amazon_try_block_def amazon_statements_def by blast
  then have zero: "rating d1 = Finite 0" by (simp add: new_ProductDetails_def)
  have kept: "rating (snd (run_steps ?rest d2)) = rating d2" for d2
    by (rule run_steps_rating_kept) (simp add: step_unchanged)
  have d: "d = snd (run_steps (amazon_rating py ?pg # ?rest) d1)"
    using assms(3) d1 by (simp add: amazon_scrape_product_eq)
  show ?thesis
  proof (cases "amazon_rating_of_text py (strip t)")
    case (Inr v)
    then have "amazon_rating py ?pg d1 = (None, d1\<lparr>rating := v\<rparr>)"
      using assms(2) by (simp add: amazon_rating_def wait_and_get_element_def safe_get_text_def)
    then show ?thesis using kept [of "d1\<lparr>rating := v\<rparr>"] d Inr by simp
  next
    case (Inl e)
    then have "e = ValueError \<or> e = IndexError" by (rule amazon_rating_of_text_error)
    then have "amazon_rating py ?pg d1 = (None, d1)"
      using assms(2) Inl
      by (auto simp: amazon_rating_def wait_and_get_element_def safe_get_text_def)
    then show ?thesis using kept [of d1] d Inl zero by simp
  qed
qed

lemma flipkart_rating_of_stripped:
  assumes "responsive (drv u) (flipkart_price_selectors @ [''._16FRp0''])"
    and "wait_until (drv u) ''div.XQDdHH'' = Inr (Element (Inr t))"
    and "flipkart_scrape_product py cls now drv u = Inr d"
  shows "rating d = (case py_float py (strip t) of Inr v \<Rightarrow> v | Inl e \<Rightarrow> Finite 0)"
proof -
  let ?pg = "drv u"
  let ?rest = "[review_count_step py ''span.Y1HWO0'' ?pg]"
  obtain d1 where d1: "flipkart_try_block py ?pg (new_ProductDetails cls now (str ''Flipkart'') u) =
      run_steps (flipkart_rating py ?pg # ?rest) d1"
      "rating d1 = rating (new_ProductDetails cls now (str ''Flipkart'') u)"
    using after_stock_status [OF assms(1), of flipkart_stock_status, OF flipkart_stock_status_shape]
    unfolding flipkart_try_block_def flipkart_statements_def by blast
  then have zero: "rating d1 = Finite 0" by (simp add: new_ProductDetails_def)
  have kept: "rating (snd (run_steps ?rest d2)) = rating d2" for d2
    by (rule run_steps_rating_kept) (simp add: step_unchanged)
  have d: "d = snd (run_steps (flipkart_rating py ?pg # ?rest) d1)"
    using assms(3) d1 by (simp add: flipkart_scrape_product_eq)
  show ?thesis
  proof (cases "py_float py (strip t)")
    case (Inr v)
    then have "flipkart_rating py ?pg d1 = (None, d1\<lparr>rating := v\<rparr>)"
      using assms(2) by (simp add: flipkart_rating_def wait_and_get_element_def safe_get_text_def)
    then show ?thesis using kept [of "d1\<lparr>rating := v\<rparr>"] d Inr by simp
  next
    case (Inl e)
    then have "e = ValueError" by (rule py_float_error)
    then have "flipkart_rating py ?pg d1 = (None, d1)"
      using assms(2) Inl
      by (auto simp: flipkart_rating_def wait_and_get_element_def safe_get_text_def)
    then show ?thesis using kept [of d1] d Inl zero by simp
  qed
qed

text \<open>
  Claim C6 does not hold as stated for Flipkart: the rating text \<open>4.3 out of 5 stars\<close>
  is given whole to \<open>float\<close>, which raises \<open>ValueError\<close>, and the rating stays 0.0,
  which is not the float that \<open>4.3\<close> denotes.
\<close>

theorem flipkart_rating_trailing_text_counterexample:
  "map_sum id rating
     (flipkart_scrape_product sample_python sample_class first_call stars_driver sample_url) =
     Inr (Finite 0) \<and>
   float_of_str sample_python (str ''4.3'') = Some (Finite double_4_3) \<and>
   Finite 0 \<noteq> Finite double_4_3"
  by (simp add: flipkart_scrape_product_eq scrape_defs stars_driver_def safe_get_text_def
      py_float_def stars_whole_text stars_first_token new_ProductDetails_def double_4_3_def)

text \<open>
  Claim C6, amended. When the statements before it raise nothing and the rating element
  is found with the text \<open>t\<close>: the rating of Amazon is what \<open>float\<close> returns for the
  first token of \<open>t\<close>, split at white space, so that text after the number is
  tolerated; the rating of Flipkart is what \<open>float\<close> returns for the whole of \<open>t\<close>,
  stripped. In both, the rating stays 0.0 when \<open>float\<close> raises \<open>ValueError\<close>, and on
  Amazon also when \<open>t\<close> has no token.
\<close>

theorem rating_parsed_per_site:
  "(responsive (drv u) (amazon_price_selectors @ [''#availability'']) \<and>
    wait_until (drv u) ''span.a-icon-alt'' = Inr (Element (Inr t)) \<and>
    amazon_scrape_product py cls now drv u = Inr d \<longrightarrow>
      rating d = (case split (strip t) of
                    [] \<Rightarrow> Finite 0
                  | token # rest \<Rightarrow>
                      (case float_of_str py token of Some v \<Rightarrow> v | None \<Rightarrow> Finite 0))) \<and>
   (responsive (drv u) (flipkart_price_selectors @ [''._16FRp0'']) \<and>
    wait_until (drv u) ''div.XQDdHH'' = Inr (Element (Inr t)) \<and>
    flipkart_scrape_product py cls now drv u = Inr d \<longrightarrow>
      rating d = (case float_of_str py (strip t) of Some v \<Rightarrow> v | None \<Rightarrow> Finite 0))"
  using amazon_rating_of_stripped [of drv u t py cls now d]
    flipkart_rating_of_stripped [of drv u t py cls now d]
  by (auto simp: amazon_rating_of_text_def first_item_def py_float_def
      split: list.splits option.splits)

text \<open>Claim C6, amended, an instance: the text \<open>4.3 out of 5 stars\<close> gives the float of
  \<open>4.3\<close> on Amazon and leaves 0.0 on Flipkart.\<close>

theorem rating_parsed_per_site_witness:
  "responsive (stars_driver sample_url) (amazon_price_selectors @ [''#availability'']) \<and>
   responsive (stars_driver sample_url) (flipkart_price_selectors @ [''._16FRp0'']) \<and>
   map_sum id rating
     (amazon_scrape_product sample_python sample_class first_call stars_driver sample_url) =
     Inr (Finite double_4_3) \<and>
   map_sum id rating
     (flipkart_scrape_product sample_python sample_class second_call stars_driver sample_url) =
     Inr (Finite 0)"
proof -
  have ra: "responsive (stars_driver sample_url) (amazon_price_selectors @ [''#availability''])"
    by (simp add: responsive_def stars_driver_def amazon_price_selectors_def)
  have rf: "responsive (stars_driver sample_url) (flipkart_price_selectors @ [''._16FRp0''])"
    by (simp add: responsive_def stars_driver_def flipkart_price_selectors_def)
  have wa: "wait_until (stars_driver sample_url) ''span.a-icon-alt'' =
      Inr (Element (Inr (str ''4.3 out of 5 stars'')))"
    by (simp add: stars_driver_def)
  have wf: "wait_until (stars_driver sample_url) ''div.XQDdHH'' =
      Inr (Element (Inr (str ''4.3 out of 5 stars'')))"
    by (simp add: stars_driver_def)
  from rating_parsed_per_site [of stars_driver sample_url "str ''4.3 out of 5 stars''"
      sample_python sample_class first_call
      "snd (amazon_try_block sample_python (stars_driver sample_url)
             (new_ProductDetails sample_class first_call (str ''Amazon'') sample_url))"]
    ra wa
  have a: "map_sum id rating
      (amazon_scrape_product sample_python sample_class first_call stars_driver sample_url) =
      Inr (Finite double_4_3)"
    by (simp add: amazon_scrape_product_eq stars_tokens stars_first_token)
  from rating_parsed_per_site [of stars_driver sample_url "str ''4.3 out of 5 stars''"
      sample_python sample_class second_call
      "snd (flipkart_try_block sample_python (stars_driver sample_url)
             (new_ProductDetails sample_class second_call (str ''Flipkart'') sample_url))"]
    rf wf
  have f: "map_sum id rating
      (flipkart_scrape_product sample_python sample_class second_call stars_driver sample_url) =
      Inr (Finite 0)"
    by (simp add: flipkart_scrape_product_eq stars_whole_text)
  from ra rf a f show ?thesis by simp
qed

section \<open>Properties of the analyzer\<close>

subsection \<open>The order of the floats\<close>







lemma float_lt_nan [simp]: "\<not> float_lt NaN x" "\<not> float_lt x NaN"
  by (simp_all add: float_lt_def)

subsection \<open>The scans of \<open>min\<close> and \<open>max\<close>\<close>













subsection \<open>The report\<close>

lemma average_rating_value:
  "valid \<noteq> [] \<Longrightarrow>
     average_rating py valid =
       Inr (if list_ex (\<lambda>r. float_lt (Finite 0) (rating r)) valid
            then PyFloat (float_round py
                   (float_truediv py (float_sum py (map rating valid)) (length valid)) 2)
            else PyInt 0)"
  by (simp add: average_rating_def py_truediv_def)

lemma prepare_analysis_no_valid:
  "filter (\<lambda>r. float_lt (Finite 0) (price r)) results = [] \<Longrightarrow>
     prepare_analysis py now results =
       Inr [(''timestamp'', PyStr (strftime now)), (''all_results'', PyList (map vars results)),
            (''error'', PyStr (str ''No valid prices found across platforms''))]"
  by (simp add: prepare_analysis_def)

lemma prepare_analysis_valid:
  assumes "valid = filter (\<lambda>r. float_lt (Finite 0) (price r)) results" and "valid \<noteq> []"
    and "py_min price valid = Inr lowest" and "py_max rating valid = Inr highest"
  shows "\<exists>average. prepare_analysis py now results =
       Inr [(''timestamp'', PyStr (strftime now)), (''all_results'', PyList (map vars results)),
            (''error'', PyNone),
            (''best_price'', best_price_entry lowest),
            (''highest_rated'', highest_rated_entry highest),
            (''average_rating'', average)]"
  using assms average_rating_value [OF assms(2), of py]
  by (simp add: prepare_analysis_def dict_update_def best_price_entry_def
      highest_rated_entry_def Let_def)


lemma filter_empty_list_ex: "filter P xs = [] \<longleftrightarrow> \<not> list_ex P xs"
  by (simp add: list_ex_iff filter_empty_conv)

lemma prepare_analysis_keys:
  "\<exists>report. prepare_analysis py now results = Inr report \<and> report_keys_as_claimed results report"
proof (cases "filter (\<lambda>r. float_lt (Finite 0) (price r)) results = []")
  case True
  then have "\<not> list_ex (\<lambda>r. float_lt (Finite 0) (price r)) results"
    by (simp add: filter_empty_list_ex)
  with prepare_analysis_no_valid [OF True, of py now] show ?thesis
    by (simp add: report_keys_as_claimed_def has_key_def)
next
  case False
  let ?valid = "filter (\<lambda>r. float_lt (Finite 0) (price r)) results"
  from False obtain lowest highest where "py_min price ?valid = Inr lowest"
      "py_max rating ?valid = Inr highest"
    by (cases ?valid) (simp_all add: py_min_def py_max_def)
  from prepare_analysis_valid [OF refl False this, of py now]
  obtain average where "prepare_analysis py now results =
       Inr [(''timestamp'', PyStr (strftime now)), (''all_results'', PyList (map vars results)),
            (''error'', PyNone),
            (''best_price'', best_price_entry lowest),
            (''highest_rated'', highest_rated_entry highest),
            (''average_rating'', average)]"
    by blast
  moreover from False have "list_ex (\<lambda>r. float_lt (Finite 0) (price r)) results"
    by (simp add: filter_empty_list_ex)
  ultimately show ?thesis
    by (simp add: report_keys_as_claimed_def has_key_def)
qed

lemma blank_run_results:
  "collect_results sample_python sample_class sample_clock
     \<lparr>amazon = blank_driver, flipkart = blank_driver\<rparr> 0 sample_urls [] =
   [new_ProductDetails sample_class first_call (str ''Amazon'') sample_url,
    (new_ProductDetails sample_class second_call (str ''Flipkart'') sample_url)
       \<lparr>stock_status := str ''In Stock''\<rparr>]"
  by (simp add: sample_urls_def scrapers_def platform_keys_differ sample_clock_def
      amazon_scrape_product_eq flipkart_scrape_product_eq scrape_defs blank_driver_def)

lemma fallback_run_results:
  "collect_results sample_python sample_class sample_clock
     \<lparr>amazon = fallback_driver, flipkart = blank_driver\<rparr> 0 sample_urls [] =
   [(new_ProductDetails sample_class first_call (str ''Amazon'') sample_url)
       \<lparr>price := Finite (2599 / 2)\<rparr>,
    (new_ProductDetails sample_class second_call (str ''Flipkart'') sample_url)
       \<lparr>stock_status := str ''In Stock''\<rparr>]"
  by (simp add: sample_urls_def scrapers_def platform_keys_differ sample_clock_def
      amazon_scrape_product_eq flipkart_scrape_product_eq scrape_defs blank_driver_def
      fallback_driver_def safe_get_text_def sold_out_unparseable rupee_text_parsed)




text \<open>
  Claim C2. The report of every list of records, and so of every run of
  \<open>analyze_product\<close>, which reports on the records it collected: when no record has a
  positive price, the value of \<open>error\<close> is the text
  \<open>No valid prices found across platforms\<close> and the keys \<open>best_price\<close>,
  \<open>highest_rated\<close> and \<open>average_rating\<close> are absent; when some record has a positive
  price, the three keys are present and \<open>error\<close> is \<open>None\<close>. No exception is raised.
\<close>

theorem report_keys_follow_valid_prices:
  "(\<exists>report. prepare_analysis py now results = Inr report \<and> report_keys_as_claimed results report) \<and>
   (\<exists>report. analyze_product py cls clock self urls = Inr report \<and>
       report_keys_as_claimed (collect_results py cls clock self 0 urls []) report)"
  using prepare_analysis_keys by (simp add: analyze_product_def)

text \<open>
  Claim C2, two instances: a run on two pages without elements, where both prices are 0,
  and a run where the page of Amazon shows a price.
\<close>

theorem report_keys_follow_valid_prices_witness:
  "(\<exists>report. analyze_product sample_python sample_class sample_clock
                \<lparr>amazon = blank_driver, flipkart = blank_driver\<rparr> sample_urls = Inr report \<and>
        map_of report ''error'' = Some (PyStr (str ''No valid prices found across platforms'')) \<and>
        map_of report ''best_price'' = None \<and> map_of report ''highest_rated'' = None \<and>
        map_of report ''average_rating'' = None) \<and>
   (\<exists>report. analyze_product sample_python sample_class sample_clock
                \<lparr>amazon = fallback_driver, flipkart = blank_driver\<rparr> sample_urls = Inr report \<and>
        map_of report ''error'' = Some PyNone \<and>
        map_of report ''best_price'' \<noteq> None \<and> map_of report ''highest_rated'' \<noteq> None \<and>
        map_of report ''average_rating'' \<noteq> None)"
  using report_keys_follow_valid_prices [of sample_python first_call "[]" sample_class sample_clock
      "\<lparr>amazon = blank_driver, flipkart = blank_driver\<rparr>" sample_urls]
    report_keys_follow_valid_prices [of sample_python first_call "[]" sample_class sample_clock
      "\<lparr>amazon = fallback_driver, flipkart = blank_driver\<rparr>" sample_urls]
  by (simp add: blank_run_results fallback_run_results report_keys_as_claimed_def has_key_def
      new_ProductDetails_def float_lt_def)







end
